theory Spec2Isabelle
  imports Main "HOL-Library.Word"
begin

section \<open>The records of files.go\<close>

text \<open>
  The package is a facade over two transport primitives of the embedded \<open>*Client\<close>
  (\<open>call\<close> and \<open>download\<close>) and over the JSON decoder of the standard library.
  Every struct of files.go is a record with the fields of the source, in the source's
  order. A \<open>uint64\<close> is a 64-bit word, a \<open>time.Time\<close> is an instant counted from the
  zero time, an \<open>io.Reader\<close> or \<open>io.ReadCloser\<close> is a reference to a stream, and an
  interface or pointer that may be nil is an \<open>option\<close>.
\<close>

datatype Time = Time int

definition zero_Time :: Time where
  "zero_Time = Time 0"

datatype error = Error string

type_synonym stream = nat

type_synonym WriteMode = string

definition WriteModeAdd :: WriteMode where
  "WriteModeAdd = ''add''"

definition WriteModeOverwrite :: string where
  "WriteModeOverwrite = ''overwrite''"

record Metadata =
  Tag :: string
  Name :: string
  PathLower :: string
  ClientModified :: Time
  ServerModified :: Time
  Rev :: string
  Size :: "64 word"
  ID :: string

record GetMetadataInput =
  Path :: string
  IncludeMediaInfo :: bool

text \<open>An output struct that embeds \<open>Metadata\<close> holds it as its one component.\<close>

record GetMetadataOutput =
  Metadata :: Metadata

record CreateFolderInput =
  Path :: string

record CreateFolderOutput =
  Name :: string
  PathLower :: string
  ID :: string

record DeleteInput =
  Path :: string

record DeleteOutput =
  Metadata :: Metadata

record CopyInput =
  FromPath :: string
  ToPath :: string

record CopyOutput =
  Metadata :: Metadata

record MoveInput =
  FromPath :: string
  ToPath :: string

record MoveOutput =
  Metadata :: Metadata

record RestoreInput =
  Path :: string
  Rev :: string

record RestoreOutput =
  Metadata :: Metadata

record ListFolderInput =
  Path :: string
  Recursive :: bool
  IncludeMediaInfo :: bool
  IncludeDeleted :: bool

record ListFolderOutput =
  Cursor :: string
  HasMore :: bool
  Entries :: "Metadata option list"

type_synonym SearchMode = string

definition SearchModeFilename :: SearchMode where
  "SearchModeFilename = ''filename''"

definition SearchModeFilenameAndContent :: string where
  "SearchModeFilenameAndContent = ''filename_and_content''"

definition SearchModeDeletedFilename :: string where
  "SearchModeDeletedFilename = ''deleted_filename''"

type_synonym SearchMatchType = string

definition SearchMatchFilename :: SearchMatchType where
  "SearchMatchFilename = ''filename''"

definition SearchMatchContent :: string where
  "SearchMatchContent = ''content''"

definition SearchMatchBoth :: string where
  "SearchMatchBoth = ''both''"

record MatchType =
  Tag :: SearchMatchType

record SearchMatch =
  MatchType :: MatchType
  Metadata :: "Metadata option"

record SearchInput =
  Path :: string
  Query :: string
  Start :: "64 word"
  MaxResults :: "64 word"
  Mode :: SearchMode

record SearchOutput =
  Matches :: "SearchMatch option list"
  More :: bool
  Start :: "64 word"

record UploadInput =
  Path :: string
  Mode :: WriteMode
  AutoRename :: bool
  Mute :: bool
  ClientModified :: Time
  Reader :: "stream option"

record UploadOutput =
  Metadata :: Metadata

record DownloadInput =
  Path :: string

record DownloadOutput =
  Body :: "stream option"

section \<open>The transport, the decoder and the streams\<close>

text \<open>
  \<open>call\<close> and \<open>download\<close> take their \<open>in\<close> argument as an \<open>interface{}\<close>: here the sum
  of the input pointers the facade passes, each of them possibly nil. The primitives
  read the record they are given (they serialise it), so they receive its value.
\<close>

datatype input =
    GetMetadataIn "GetMetadataInput option"
  | CreateFolderIn "CreateFolderInput option"
  | DeleteIn "DeleteInput option"
  | CopyIn "CopyInput option"
  | MoveIn "MoveInput option"
  | RestoreIn "RestoreInput option"
  | ListFolderIn "ListFolderInput option"
  | SearchIn "SearchInput option"
  | UploadIn "UploadInput option"
  | DownloadIn "DownloadInput option"

text \<open>
  What the facade does to the outside is recorded as a trace of events, in order: one
  event per use of a transport primitive (with its endpoint, its input and, for
  \<open>download\<close>, the request body stream), one per decoding of a response body, one per
  \<open>Close\<close> of a response body.
\<close>

datatype event =
    CallEv string input
  | DownloadEv string input "stream option"
  | DecodeEv stream
  | CloseEv stream

record 'w state =
  trace :: "event list"
  world :: 'w

text \<open>
  The primitives themselves are not part of files.go: they are parameters. Each is a
  function of its arguments and of the state of the outside world \<open>'w\<close> (the network,
  the remote store, the contents and positions of the streams), returning the two
  results of the Go function, a body that may be nil and an error that may be nil,
  together with the new world.
\<close>

record 'w Client =
  call :: "string \<Rightarrow> input \<Rightarrow> 'w \<Rightarrow> (stream option \<times> error option) \<times> 'w"
  download :: "string \<Rightarrow> input \<Rightarrow> stream option \<Rightarrow> 'w \<Rightarrow> (stream option \<times> error option) \<times> 'w"

text \<open>
  \<open>json.NewDecoder(body).Decode(&out)\<close> with \<open>out\<close> a nil pointer: the decoder reads
  the stream and returns the new value of \<open>out\<close> (still nil, or a fresh record)
  and its error.
\<close>

type_synonym ('w, 'o) decoder = "stream \<Rightarrow> 'w \<Rightarrow> ('o option \<times> error option) \<times> 'w"

text \<open>\<open>body.Close()\<close>: the method of the stream; it returns an error.\<close>

type_synonym 'w closer = "stream \<Rightarrow> 'w \<Rightarrow> error option \<times> 'w"

definition c_call ::
  "'w Client \<Rightarrow> string \<Rightarrow> input \<Rightarrow> 'w state \<Rightarrow> (stream option \<times> error option) \<times> 'w state" where
  "c_call c path inp s =
     (case call c path inp (world s) of
        (r, w) \<Rightarrow> (r, \<lparr>trace = trace s @ [CallEv path inp], world = w\<rparr>))"

definition c_download ::
  "'w Client \<Rightarrow> string \<Rightarrow> input \<Rightarrow> stream option \<Rightarrow> 'w state
     \<Rightarrow> (stream option \<times> error option) \<times> 'w state" where
  "c_download c path inp r s =
     (case download c path inp r (world s) of
        (res, w) \<Rightarrow> (res, \<lparr>trace = trace s @ [DownloadEv path inp r], world = w\<rparr>))"

definition json_Decode ::
  "('w, 'o) decoder \<Rightarrow> stream \<Rightarrow> 'w state \<Rightarrow> ('o option \<times> error option) \<times> 'w state" where
  "json_Decode dec b s =
     (case dec b (world s) of
        (r, w) \<Rightarrow> (r, \<lparr>trace = trace s @ [DecodeEv b], world = w\<rparr>))"

text \<open>The deferred \<open>body.Close()\<close>: its error is dropped.\<close>

definition body_Close :: "'w closer \<Rightarrow> stream \<Rightarrow> 'w state \<Rightarrow> 'w state" where
  "body_Close cl b s =
     (case cl b (world s) of
        (e, w) \<Rightarrow> \<lparr>trace = trace s @ [CloseEv b], world = w\<rparr>)"

section \<open>The operations\<close>

text \<open>
  An operation takes the client, the \<open>Close\<close> method of the streams, the decoder for its
  output type, the input pointer and the state. It returns \<open>Return out err inp' s'\<close>:
  the two results, the record the input pointer points to when the call returns, and
  the state; or it panics (\<open>Panic s'\<close>) where the Go code dereferences nil.
  A primitive that returns neither a body nor an error makes the deferred
  \<open>body.Close()\<close> panic on the nil interface, before any decoding.
\<close>

datatype ('i, 'o, 'w) outcome =
    Panic "'w state"
  | Return "'o option" "error option" "'i option" "'w state"

definition GetMetadata ::
  "'w Client \<Rightarrow> 'w closer \<Rightarrow> ('w, GetMetadataOutput) decoder \<Rightarrow> GetMetadataInput option
     \<Rightarrow> 'w state \<Rightarrow> (GetMetadataInput, GetMetadataOutput, 'w) outcome" where
  "GetMetadata c cl dec inp s =
     (case c_call c ''/files/get_metadata'' (GetMetadataIn inp) s of
        ((body, Some e), s1) \<Rightarrow> Return None (Some e) inp s1
      | ((None, None), s1) \<Rightarrow> Panic s1
      | ((Some b, None), s1) \<Rightarrow>
          (case json_Decode dec b s1 of
             ((out, err), s2) \<Rightarrow> Return out err inp (body_Close cl b s2)))"

definition CreateFolder ::
  "'w Client \<Rightarrow> 'w closer \<Rightarrow> ('w, CreateFolderOutput) decoder \<Rightarrow> CreateFolderInput option
     \<Rightarrow> 'w state \<Rightarrow> (CreateFolderInput, CreateFolderOutput, 'w) outcome" where
  "CreateFolder c cl dec inp s =
     (case c_call c ''/files/create_folder'' (CreateFolderIn inp) s of
        ((body, Some e), s1) \<Rightarrow> Return None (Some e) inp s1
      | ((None, None), s1) \<Rightarrow> Panic s1
      | ((Some b, None), s1) \<Rightarrow>
          (case json_Decode dec b s1 of
             ((out, err), s2) \<Rightarrow> Return out err inp (body_Close cl b s2)))"

definition Delete ::
  "'w Client \<Rightarrow> 'w closer \<Rightarrow> ('w, DeleteOutput) decoder \<Rightarrow> DeleteInput option
     \<Rightarrow> 'w state \<Rightarrow> (DeleteInput, DeleteOutput, 'w) outcome" where
  "Delete c cl dec inp s =
     (case c_call c ''/files/delete'' (DeleteIn inp) s of
        ((body, Some e), s1) \<Rightarrow> Return None (Some e) inp s1
      | ((None, None), s1) \<Rightarrow> Panic s1
      | ((Some b, None), s1) \<Rightarrow>
          (case json_Decode dec b s1 of
             ((out, err), s2) \<Rightarrow> Return out err inp (body_Close cl b s2)))"

definition Copy ::
  "'w Client \<Rightarrow> 'w closer \<Rightarrow> ('w, CopyOutput) decoder \<Rightarrow> CopyInput option
     \<Rightarrow> 'w state \<Rightarrow> (CopyInput, CopyOutput, 'w) outcome" where
  "Copy c cl dec inp s =
     (case c_call c ''/files/copy'' (CopyIn inp) s of
        ((body, Some e), s1) \<Rightarrow> Return None (Some e) inp s1
      | ((None, None), s1) \<Rightarrow> Panic s1
      | ((Some b, None), s1) \<Rightarrow>
          (case json_Decode dec b s1 of
             ((out, err), s2) \<Rightarrow> Return out err inp (body_Close cl b s2)))"

definition Move ::
  "'w Client \<Rightarrow> 'w closer \<Rightarrow> ('w, MoveOutput) decoder \<Rightarrow> MoveInput option
     \<Rightarrow> 'w state \<Rightarrow> (MoveInput, MoveOutput, 'w) outcome" where
  "Move c cl dec inp s =
     (case c_call c ''/files/move'' (MoveIn inp) s of
        ((body, Some e), s1) \<Rightarrow> Return None (Some e) inp s1
      | ((None, None), s1) \<Rightarrow> Panic s1
      | ((Some b, None), s1) \<Rightarrow>
          (case json_Decode dec b s1 of
             ((out, err), s2) \<Rightarrow> Return out err inp (body_Close cl b s2)))"

definition Restore ::
  "'w Client \<Rightarrow> 'w closer \<Rightarrow> ('w, RestoreOutput) decoder \<Rightarrow> RestoreInput option
     \<Rightarrow> 'w state \<Rightarrow> (RestoreInput, RestoreOutput, 'w) outcome" where
  "Restore c cl dec inp s =
     (case c_call c ''/files/restore'' (RestoreIn inp) s of
        ((body, Some e), s1) \<Rightarrow> Return None (Some e) inp s1
      | ((None, None), s1) \<Rightarrow> Panic s1
      | ((Some b, None), s1) \<Rightarrow>
          (case json_Decode dec b s1 of
             ((out, err), s2) \<Rightarrow> Return out err inp (body_Close cl b s2)))"

definition ListFolder ::
  "'w Client \<Rightarrow> 'w closer \<Rightarrow> ('w, ListFolderOutput) decoder \<Rightarrow> ListFolderInput option
     \<Rightarrow> 'w state \<Rightarrow> (ListFolderInput, ListFolderOutput, 'w) outcome" where
  "ListFolder c cl dec inp s =
     (case c_call c ''/files/list_folder'' (ListFolderIn inp) s of
        ((body, Some e), s1) \<Rightarrow> Return None (Some e) inp s1
      | ((None, None), s1) \<Rightarrow> Panic s1
      | ((Some b, None), s1) \<Rightarrow>
          (case json_Decode dec b s1 of
             ((out, err), s2) \<Rightarrow> Return out err inp (body_Close cl b s2)))"

text \<open>
  \<open>Search\<close> reads \<open>in.Mode\<close> first (a nil \<open>in\<close> panics there) and, when it is empty,
  writes \<open>SearchModeFilename\<close> through the pointer before the request is made.
\<close>

definition fill_Mode :: "SearchInput \<Rightarrow> SearchInput" where
  "fill_Mode i =
     (if SearchInput.Mode i = '''' then i\<lparr>SearchInput.Mode := SearchModeFilename\<rparr> else i)"

definition Search ::
  "'w Client \<Rightarrow> 'w closer \<Rightarrow> ('w, SearchOutput) decoder \<Rightarrow> SearchInput option
     \<Rightarrow> 'w state \<Rightarrow> (SearchInput, SearchOutput, 'w) outcome" where
  "Search c cl dec inp s =
     (case inp of
        None \<Rightarrow> Panic s
      | Some i0 \<Rightarrow>
          (let i = fill_Mode i0
           in case c_call c ''/files/search'' (SearchIn (Some i)) s of
                ((body, Some e), s1) \<Rightarrow> Return None (Some e) (Some i) s1
              | ((None, None), s1) \<Rightarrow> Panic s1
              | ((Some b, None), s1) \<Rightarrow>
                  (case json_Decode dec b s1 of
                     ((out, err), s2) \<Rightarrow> Return out err (Some i) (body_Close cl b s2))))"

text \<open>\<open>Upload\<close> reads \<open>in.Reader\<close> to build the arguments of \<open>download\<close>: a nil \<open>in\<close> panics.\<close>

definition Upload ::
  "'w Client \<Rightarrow> 'w closer \<Rightarrow> ('w, UploadOutput) decoder \<Rightarrow> UploadInput option
     \<Rightarrow> 'w state \<Rightarrow> (UploadInput, UploadOutput, 'w) outcome" where
  "Upload c cl dec inp s =
     (case inp of
        None \<Rightarrow> Panic s
      | Some i \<Rightarrow>
          (case c_download c ''/files/upload'' (UploadIn (Some i)) (Reader i) s of
             ((body, Some e), s1) \<Rightarrow> Return None (Some e) (Some i) s1
           | ((None, None), s1) \<Rightarrow> Panic s1
           | ((Some b, None), s1) \<Rightarrow>
               (case json_Decode dec b s1 of
                  ((out, err), s2) \<Rightarrow> Return out err (Some i) (body_Close cl b s2))))"

text \<open>\<open>Download\<close> neither decodes nor closes: it wraps the body it was given.\<close>

definition Download ::
  "'w Client \<Rightarrow> DownloadInput option \<Rightarrow> 'w state
     \<Rightarrow> (DownloadInput, DownloadOutput, 'w) outcome" where
  "Download c inp s =
     (case c_download c ''/files/download'' (DownloadIn inp) None s of
        ((body, Some e), s1) \<Rightarrow> Return None (Some e) inp s1
      | ((body, None), s1) \<Rightarrow> Return (Some \<lparr>Body = body\<rparr>) None inp s1)"

section \<open>The JSON mapping of the records\<close>

text \<open>
  The primitives serialise their input with \<open>json.Marshal\<close>, and the decoder fills the
  outputs, both from the \<open>json\<close> struct tags of files.go. What follows is the part of
  encoding/json that reads a tag: \<open>parseTag\<close> cuts the tag at its first comma into a
  name and options, a tag \<open>"-"\<close> leaves the field out, a name that is empty or not valid
  falls back to the Go name of the field, and a field with the option \<open>omitempty\<close> is
  left out when \<open>isEmptyValue\<close> holds of its value. A field declared without a tag has
  the empty tag. The letters and digits of a valid name are the ASCII ones, which is all
  the tags of files.go use.
\<close>

definition tag_name :: "string \<Rightarrow> string" where
  "tag_name tag = takeWhile (\<lambda>c. c \<noteq> CHR '','') tag"

definition tag_opts :: "string \<Rightarrow> string" where
  "tag_opts tag = drop 1 (dropWhile (\<lambda>c. c \<noteq> CHR '','') tag)"

fun split_commas :: "string \<Rightarrow> string list" where
  "split_commas [] = [[]]"
| "split_commas (x # xs) =
     (if x = CHR '','' then [] # split_commas xs
      else (case split_commas xs of [] \<Rightarrow> [[x]] | y # ys \<Rightarrow> (x # y) # ys))"

definition opts_Contains :: "string \<Rightarrow> string \<Rightarrow> bool" where
  "opts_Contains opts name = (opts \<noteq> [] \<and> name \<in> set (split_commas opts))"

definition isLetterOrDigit :: "char \<Rightarrow> bool" where
  "isLetterOrDigit c =
     (c \<in> set ''abcdefghijklmnopqrstuvwxyz'' \<or> c \<in> set ''ABCDEFGHIJKLMNOPQRSTUVWXYZ'' \<or>
      c \<in> set ''0123456789'')"

definition isValidTag :: "string \<Rightarrow> bool" where
  "isValidTag s =
     (s \<noteq> [] \<and>
      list_all (\<lambda>c. c \<in> set ''!#$%&()*+-./:;<=>?@[]^_{|}~ '' \<or> isLetterOrDigit c) s)"

text \<open>The key a field is written and read under; \<open>None\<close> when the field is left out.\<close>

definition field_key :: "string \<Rightarrow> string \<Rightarrow> string option" where
  "field_key fname tag =
     (if tag = ''-'' then None
      else Some (if isValidTag (tag_name tag) then tag_name tag else fname))"

definition omitEmpty :: "string \<Rightarrow> bool" where
  "omitEmpty tag = opts_Contains (tag_opts tag) ''omitempty''"

text \<open>
  The values of the fields that are serialised, by their Go kind. \<open>isEmptyValue\<close> is
  true of an empty string, of \<open>false\<close>, of zero and of a nil interface; a struct, such as
  a \<open>time.Time\<close>, falls to its last branch and is never empty.
\<close>

datatype go_value =
    VString string
  | VBool bool
  | VUint64 "64 word"
  | VTime Time
  | VReader "stream option"

fun isEmptyValue :: "go_value \<Rightarrow> bool" where
  "isEmptyValue (VString s) = (length s = 0)"
| "isEmptyValue (VBool b) = (b = False)"
| "isEmptyValue (VUint64 n) = (n = 0)"
| "isEmptyValue (VReader r) = (r = None)"
| "isEmptyValue (VTime t) = False"

record json_field =
  go_name :: string
  json_tag :: string
  go_val :: go_value

text \<open>The keys of the JSON object \<open>json.Marshal\<close> writes for a struct, in field order.\<close>

fun marshal_keys :: "json_field list \<Rightarrow> string list" where
  "marshal_keys [] = []"
| "marshal_keys (f # fs) =
     (case field_key (go_name f) (json_tag f) of
        None \<Rightarrow> marshal_keys fs
      | Some k \<Rightarrow>
          (if omitEmpty (json_tag f) \<and> isEmptyValue (go_val f) then marshal_keys fs
           else k # marshal_keys fs))"

definition UploadInput_fields :: "UploadInput \<Rightarrow> json_field list" where
  "UploadInput_fields i =
     [\<lparr>go_name = ''Path'', json_tag = ''path'', go_val = VString (UploadInput.Path i)\<rparr>,
      \<lparr>go_name = ''Mode'', json_tag = ''mode'', go_val = VString (UploadInput.Mode i)\<rparr>,
      \<lparr>go_name = ''AutoRename'', json_tag = ''autorename'', go_val = VBool (AutoRename i)\<rparr>,
      \<lparr>go_name = ''Mute'', json_tag = ''mute'', go_val = VBool (Mute i)\<rparr>,
      \<lparr>go_name = ''ClientModified'', json_tag = ''client_modified,omitempty'',
        go_val = VTime (UploadInput.ClientModified i)\<rparr>,
      \<lparr>go_name = ''Reader'', json_tag = ''-'', go_val = VReader (Reader i)\<rparr>]"

definition SearchInput_fields :: "SearchInput \<Rightarrow> json_field list" where
  "SearchInput_fields i =
     [\<lparr>go_name = ''Path'', json_tag = ''path'', go_val = VString (SearchInput.Path i)\<rparr>,
      \<lparr>go_name = ''Query'', json_tag = ''query'', go_val = VString (Query i)\<rparr>,
      \<lparr>go_name = ''Start'', json_tag = ''start,omitempty'',
        go_val = VUint64 (SearchInput.Start i)\<rparr>,
      \<lparr>go_name = ''MaxResults'', json_tag = ''max_results,omitempty'',
        go_val = VUint64 (MaxResults i)\<rparr>,
      \<lparr>go_name = ''Mode'', json_tag = ''mode'', go_val = VString (SearchInput.Mode i)\<rparr>]"

text \<open>
  The declarations of the structs: the Go name and the \<open>json\<close> tag of every field, as
  written in files.go. The fields of an embedded \<open>Metadata\<close> are promoted to the struct
  that embeds it.
\<close>

type_synonym field_decl = "string \<times> string"

definition Metadata_decl :: "field_decl list" where
  "Metadata_decl =
     [(''Tag'', ''.tag''), (''Name'', ''name''), (''PathLower'', ''path_lower''),
      (''ClientModified'', ''client_modified''), (''ServerModified'', ''server_modified''),
      (''Rev'', ''rev''), (''Size'', ''size''), (''ID'', ''id'')]"

definition GetMetadataInput_decl :: "field_decl list" where
  "GetMetadataInput_decl = [(''Path'', ''path''), (''IncludeMediaInfo'', ''include_media_info'')]"

definition CreateFolderInput_decl :: "field_decl list" where
  "CreateFolderInput_decl = [(''Path'', ''path'')]"

definition CreateFolderOutput_decl :: "field_decl list" where
  "CreateFolderOutput_decl =
     [(''Name'', ''name''), (''PathLower'', ''path_lower''), (''ID'', ''id'')]"

definition DeleteInput_decl :: "field_decl list" where
  "DeleteInput_decl = [(''Path'', ''path'')]"

definition CopyInput_decl :: "field_decl list" where
  "CopyInput_decl = [(''FromPath'', ''from_path''), (''ToPath'', ''to_path'')]"

definition MoveInput_decl :: "field_decl list" where
  "MoveInput_decl = [(''FromPath'', ''from_path''), (''ToPath'', ''to_path'')]"

definition RestoreInput_decl :: "field_decl list" where
  "RestoreInput_decl = [(''Path'', ''path''), (''Rev'', ''rev'')]"

definition ListFolderInput_decl :: "field_decl list" where
  "ListFolderInput_decl =
     [(''Path'', ''path''), (''Recursive'', ''recursive''),
      (''IncludeMediaInfo'', ''include_media_info''), (''IncludeDeleted'', ''include_deleted'')]"

definition ListFolderOutput_decl :: "field_decl list" where
  "ListFolderOutput_decl =
     [(''Cursor'', ''cursor''), (''HasMore'', ''has_more''), (''Entries'', '''')]"

definition MatchType_decl :: "field_decl list" where
  "MatchType_decl = [(''Tag'', ''.tag'')]"

definition SearchMatch_decl :: "field_decl list" where
  "SearchMatch_decl = [(''MatchType'', ''match_type''), (''Metadata'', ''metadata'')]"

definition SearchInput_decl :: "field_decl list" where
  "SearchInput_decl =
     [(''Path'', ''path''), (''Query'', ''query''), (''Start'', ''start,omitempty''),
      (''MaxResults'', ''max_results,omitempty''), (''Mode'', ''mode'')]"

definition SearchOutput_decl :: "field_decl list" where
  "SearchOutput_decl = [(''Matches'', ''matches''), (''More'', ''more''), (''Start'', ''start'')]"

definition UploadInput_decl :: "field_decl list" where
  "UploadInput_decl =
     [(''Path'', ''path''), (''Mode'', ''mode''), (''AutoRename'', ''autorename''),
      (''Mute'', ''mute''), (''ClientModified'', ''client_modified,omitempty''),
      (''Reader'', ''-'')]"

definition DownloadInput_decl :: "field_decl list" where
  "DownloadInput_decl = [(''Path'', ''path'')]"

definition DownloadOutput_decl :: "field_decl list" where
  "DownloadOutput_decl = [(''Body'', '''')]"

text \<open>
  The structs that travel as JSON: every input, and every output but \<open>DownloadOutput\<close>,
  which wraps the response stream and is never decoded. The outputs of \<open>GetMetadata\<close>,
  \<open>Delete\<close>, \<open>Copy\<close>, \<open>Move\<close>, \<open>Restore\<close> and \<open>Upload\<close> have the fields of \<open>Metadata\<close>.
\<close>

definition json_structs :: "(string \<times> field_decl list) list" where
  "json_structs =
     [(''Metadata'', Metadata_decl),
      (''GetMetadataInput'', GetMetadataInput_decl), (''GetMetadataOutput'', Metadata_decl),
      (''CreateFolderInput'', CreateFolderInput_decl),
      (''CreateFolderOutput'', CreateFolderOutput_decl),
      (''DeleteInput'', DeleteInput_decl), (''DeleteOutput'', Metadata_decl),
      (''CopyInput'', CopyInput_decl), (''CopyOutput'', Metadata_decl),
      (''MoveInput'', MoveInput_decl), (''MoveOutput'', Metadata_decl),
      (''RestoreInput'', RestoreInput_decl), (''RestoreOutput'', Metadata_decl),
      (''ListFolderInput'', ListFolderInput_decl), (''ListFolderOutput'', ListFolderOutput_decl),
      (''SearchMatch.MatchType'', MatchType_decl), (''SearchMatch'', SearchMatch_decl),
      (''SearchInput'', SearchInput_decl), (''SearchOutput'', SearchOutput_decl),
      (''UploadInput'', UploadInput_decl), (''UploadOutput'', Metadata_decl),
      (''DownloadInput'', DownloadInput_decl)]"

definition decl_keys :: "field_decl list \<Rightarrow> string option list" where
  "decl_keys d = map (\<lambda>(fname, tag). field_key fname tag) d"

text \<open>A wire key of the remote API: lower-case letters, underscores and the dot of \<open>.tag\<close>.\<close>

definition lower_snake :: "string \<Rightarrow> bool" where
  "lower_snake k = (k \<noteq> [] \<and> list_all (\<lambda>c. c \<in> set ''abcdefghijklmnopqrstuvwxyz_.'') k)"

text \<open>The fields of a struct that are mapped to JSON under a key that is no wire key.\<close>

definition off_contract :: "string \<times> field_decl list \<Rightarrow> (string \<times> string \<times> string) list" where
  "off_contract sd =
     concat (map (\<lambda>(fname, tag).
        (case field_key fname tag of
           None \<Rightarrow> []
         | Some k \<Rightarrow> if lower_snake k then [] else [(fst sd, fname, k)])) (snd sd))"

section \<open>Observing a run\<close>

fun final_state :: "('i, 'o, 'w) outcome \<Rightarrow> 'w state" where
  "final_state (Panic s) = s"
| "final_state (Return out err inp s) = s"

text \<open>The events an operation added to the trace it started from.\<close>

definition new_events :: "'w state \<Rightarrow> ('i, 'o, 'w) outcome \<Rightarrow> event list" where
  "new_events s r = drop (length (trace s)) (trace (final_state r))"

fun is_request :: "event \<Rightarrow> bool" where
  "is_request (CallEv path inp) = True"
| "is_request (DownloadEv path inp r) = True"
| "is_request (DecodeEv b) = False"
| "is_request (CloseEv b) = False"

definition transport_events :: "event list \<Rightarrow> event list" where
  "transport_events es = filter is_request es"

section \<open>Concrete clients, decoders and inputs\<close>

text \<open>
  Stand-ins for the parameters, used to run the operations on concrete inputs. The world
  is a counter: a transport primitive adds 1, a decoding 10, a \<open>Close\<close> 100.
\<close>

definition timeout :: error where
  "timeout = Error ''net/http: request canceled (Client.Timeout exceeded)''"

definition type_mismatch :: error where
  "type_mismatch =
     Error ''json: cannot unmarshal string into Go struct field .size of type uint64''"

definition syntax_error :: error where
  "syntax_error = Error ''invalid character < looking for beginning of value''"

text \<open>
  A transport that fails, one that answers with stream 7, and one that returns a body
  together with its error.
\<close>

definition failing_Client :: "nat Client" where
  "failing_Client =
     \<lparr>call = (\<lambda>path inp w. ((None, Some timeout), w + 1)),
      download = (\<lambda>path inp r w. ((None, Some timeout), w + 1))\<rparr>"

definition serving_Client :: "nat Client" where
  "serving_Client =
     \<lparr>call = (\<lambda>path inp w. ((Some 7, None), w + 1)),
      download = (\<lambda>path inp r w. ((Some 7, None), w + 1))\<rparr>"

definition leaking_Client :: "nat Client" where
  "leaking_Client =
     \<lparr>call = (\<lambda>path inp w. ((Some 7, Some timeout), w + 1)),
      download = (\<lambda>path inp r w. ((Some 7, Some timeout), w + 1))\<rparr>"

text \<open>A transport that returns neither a body nor an error.\<close>

definition silent_Client :: "nat Client" where
  "silent_Client =
     \<lparr>call = (\<lambda>path inp w. ((None, None), w + 1)),
      download = (\<lambda>path inp r w. ((None, None), w + 1))\<rparr>"

definition closes :: "nat closer" where
  "closes b w = (None, w + 100)"

text \<open>
  A decoder that succeeds with a value; one that fails on a body that is not JSON and
  leaves the output nil; and one that fails as encoding/json does on a field of the
  wrong type (\<open>{"name": "a.txt", "size": "big"}\<close>): it has allocated the output and
  set the fields it could, and returns the type error.
\<close>

definition decodes :: "'o \<Rightarrow> (nat, 'o) decoder" where
  "decodes v b w = ((Some v, None), w + 10)"

definition decode_fails_nil :: "(nat, 'o) decoder" where
  "decode_fails_nil b w = ((None, Some syntax_error), w + 10)"

definition decode_fails_partial :: "'o \<Rightarrow> (nat, 'o) decoder" where
  "decode_fails_partial v b w = ((Some v, Some type_mismatch), w + 10)"

definition partial_Metadata :: Metadata where
  "partial_Metadata =
     \<lparr>Metadata.Tag = '''', Name = ''a.txt'', PathLower = '''', ClientModified = zero_Time,
      ServerModified = zero_Time, Rev = '''', Size = 0, ID = ''''\<rparr>"

definition a_Metadata :: Metadata where
  "a_Metadata =
     \<lparr>Metadata.Tag = ''file'', Name = ''a.txt'', PathLower = ''/a.txt'',
      ClientModified = Time 1000, ServerModified = Time 2000, Rev = ''5e1a'', Size = 5,
      ID = ''id:a4ayc''\<rparr>"

definition s0 :: "nat state" where
  "s0 = \<lparr>trace = [], world = 0\<rparr>"

definition a_GetMetadataInput :: GetMetadataInput where
  "a_GetMetadataInput = \<lparr>GetMetadataInput.Path = ''/a.txt'', IncludeMediaInfo = False\<rparr>"

definition a_CreateFolderInput :: CreateFolderInput where
  "a_CreateFolderInput = \<lparr>CreateFolderInput.Path = ''/docs''\<rparr>"

definition a_DeleteInput :: DeleteInput where
  "a_DeleteInput = \<lparr>DeleteInput.Path = ''/a.txt''\<rparr>"

definition a_CopyInput :: CopyInput where
  "a_CopyInput = \<lparr>CopyInput.FromPath = ''/a.txt'', ToPath = ''/b.txt''\<rparr>"

definition a_MoveInput :: MoveInput where
  "a_MoveInput = \<lparr>MoveInput.FromPath = ''/a.txt'', ToPath = ''/c.txt''\<rparr>"

definition a_RestoreInput :: RestoreInput where
  "a_RestoreInput = \<lparr>RestoreInput.Path = ''/a.txt'', Rev = ''5e1a''\<rparr>"

definition a_ListFolderInput :: ListFolderInput where
  "a_ListFolderInput =
     \<lparr>ListFolderInput.Path = '''', Recursive = False, IncludeMediaInfo = False,
      IncludeDeleted = False\<rparr>"

definition a_SearchInput :: SearchInput where
  "a_SearchInput =
     \<lparr>SearchInput.Path = '''', Query = ''report'', Start = 0, MaxResults = 0, Mode = ''''\<rparr>"

definition a_SearchOutput :: SearchOutput where
  "a_SearchOutput = \<lparr>Matches = [], More = False, SearchOutput.Start = 0\<rparr>"

definition an_UploadInput :: UploadInput where
  "an_UploadInput =
     \<lparr>UploadInput.Path = ''/a.txt'', Mode = WriteModeAdd, AutoRename = False, Mute = False,
      ClientModified = zero_Time, Reader = Some 3\<rparr>"

definition a_DownloadInput :: DownloadInput where
  "a_DownloadInput = \<lparr>DownloadInput.Path = ''/a.txt''\<rparr>"

section \<open>The two paths of an operation\<close>

text \<open>
  Each JSON operation has two paths after the transport primitive: the error path
  returns at once, the success path decodes the body and closes it.
\<close>

lemma GetMetadata_transport_error:
  "call c ''/files/get_metadata'' (GetMetadataIn inp) (world s) = ((body, Some e), w') \<Longrightarrow>
   GetMetadata c cl dec inp s =
     Return None (Some e) inp
       \<lparr>trace = trace s @ [CallEv ''/files/get_metadata'' (GetMetadataIn inp)],
        world = w'\<rparr>"
  by (simp add: GetMetadata_def c_call_def split: option.splits)

lemma GetMetadata_transport_ok:
  "call c ''/files/get_metadata'' (GetMetadataIn inp) (world s) = ((Some b, None), w') \<Longrightarrow>
   GetMetadata c cl dec inp s =
     Return (fst (fst (dec b w'))) (snd (fst (dec b w'))) inp
       \<lparr>trace = trace s @
          [CallEv ''/files/get_metadata'' (GetMetadataIn inp), DecodeEv b, CloseEv b],
        world = snd (cl b (snd (dec b w')))\<rparr>"
  by (simp add: GetMetadata_def c_call_def json_Decode_def body_Close_def split: prod.splits)

lemma CreateFolder_transport_error:
  "call c ''/files/create_folder'' (CreateFolderIn inp) (world s) = ((body, Some e), w') \<Longrightarrow>
   CreateFolder c cl dec inp s =
     Return None (Some e) inp
       \<lparr>trace = trace s @ [CallEv ''/files/create_folder'' (CreateFolderIn inp)],
        world = w'\<rparr>"
  by (simp add: CreateFolder_def c_call_def split: option.splits)

lemma CreateFolder_transport_ok:
  "call c ''/files/create_folder'' (CreateFolderIn inp) (world s) = ((Some b, None), w') \<Longrightarrow>
   CreateFolder c cl dec inp s =
     Return (fst (fst (dec b w'))) (snd (fst (dec b w'))) inp
       \<lparr>trace = trace s @
          [CallEv ''/files/create_folder'' (CreateFolderIn inp), DecodeEv b, CloseEv b],
        world = snd (cl b (snd (dec b w')))\<rparr>"
  by (simp add: CreateFolder_def c_call_def json_Decode_def body_Close_def split: prod.splits)

lemma Delete_transport_error:
  "call c ''/files/delete'' (DeleteIn inp) (world s) = ((body, Some e), w') \<Longrightarrow>
   Delete c cl dec inp s =
     Return None (Some e) inp
       \<lparr>trace = trace s @ [CallEv ''/files/delete'' (DeleteIn inp)],
        world = w'\<rparr>"
  by (simp add: Delete_def c_call_def split: option.splits)

lemma Delete_transport_ok:
  "call c ''/files/delete'' (DeleteIn inp) (world s) = ((Some b, None), w') \<Longrightarrow>
   Delete c cl dec inp s =
     Return (fst (fst (dec b w'))) (snd (fst (dec b w'))) inp
       \<lparr>trace = trace s @
          [CallEv ''/files/delete'' (DeleteIn inp), DecodeEv b, CloseEv b],
        world = snd (cl b (snd (dec b w')))\<rparr>"
  by (simp add: Delete_def c_call_def json_Decode_def body_Close_def split: prod.splits)

lemma Copy_transport_error:
  "call c ''/files/copy'' (CopyIn inp) (world s) = ((body, Some e), w') \<Longrightarrow>
   Copy c cl dec inp s =
     Return None (Some e) inp
       \<lparr>trace = trace s @ [CallEv ''/files/copy'' (CopyIn inp)],
        world = w'\<rparr>"
  by (simp add: Copy_def c_call_def split: option.splits)

lemma Copy_transport_ok:
  "call c ''/files/copy'' (CopyIn inp) (world s) = ((Some b, None), w') \<Longrightarrow>
   Copy c cl dec inp s =
     Return (fst (fst (dec b w'))) (snd (fst (dec b w'))) inp
       \<lparr>trace = trace s @
          [CallEv ''/files/copy'' (CopyIn inp), DecodeEv b, CloseEv b],
        world = snd (cl b (snd (dec b w')))\<rparr>"
  by (simp add: Copy_def c_call_def json_Decode_def body_Close_def split: prod.splits)

lemma Move_transport_error:
  "call c ''/files/move'' (MoveIn inp) (world s) = ((body, Some e), w') \<Longrightarrow>
   Move c cl dec inp s =
     Return None (Some e) inp
       \<lparr>trace = trace s @ [CallEv ''/files/move'' (MoveIn inp)],
        world = w'\<rparr>"
  by (simp add: Move_def c_call_def split: option.splits)

lemma Move_transport_ok:
  "call c ''/files/move'' (MoveIn inp) (world s) = ((Some b, None), w') \<Longrightarrow>
   Move c cl dec inp s =
     Return (fst (fst (dec b w'))) (snd (fst (dec b w'))) inp
       \<lparr>trace = trace s @
          [CallEv ''/files/move'' (MoveIn inp), DecodeEv b, CloseEv b],
        world = snd (cl b (snd (dec b w')))\<rparr>"
  by (simp add: Move_def c_call_def json_Decode_def body_Close_def split: prod.splits)

lemma Restore_transport_error:
  "call c ''/files/restore'' (RestoreIn inp) (world s) = ((body, Some e), w') \<Longrightarrow>
   Restore c cl dec inp s =
     Return None (Some e) inp
       \<lparr>trace = trace s @ [CallEv ''/files/restore'' (RestoreIn inp)],
        world = w'\<rparr>"
  by (simp add: Restore_def c_call_def split: option.splits)

lemma Restore_transport_ok:
  "call c ''/files/restore'' (RestoreIn inp) (world s) = ((Some b, None), w') \<Longrightarrow>
   Restore c cl dec inp s =
     Return (fst (fst (dec b w'))) (snd (fst (dec b w'))) inp
       \<lparr>trace = trace s @
          [CallEv ''/files/restore'' (RestoreIn inp), DecodeEv b, CloseEv b],
        world = snd (cl b (snd (dec b w')))\<rparr>"
  by (simp add: Restore_def c_call_def json_Decode_def body_Close_def split: prod.splits)

lemma ListFolder_transport_error:
  "call c ''/files/list_folder'' (ListFolderIn inp) (world s) = ((body, Some e), w') \<Longrightarrow>
   ListFolder c cl dec inp s =
     Return None (Some e) inp
       \<lparr>trace = trace s @ [CallEv ''/files/list_folder'' (ListFolderIn inp)],
        world = w'\<rparr>"
  by (simp add: ListFolder_def c_call_def split: option.splits)

lemma ListFolder_transport_ok:
  "call c ''/files/list_folder'' (ListFolderIn inp) (world s) = ((Some b, None), w') \<Longrightarrow>
   ListFolder c cl dec inp s =
     Return (fst (fst (dec b w'))) (snd (fst (dec b w'))) inp
       \<lparr>trace = trace s @
          [CallEv ''/files/list_folder'' (ListFolderIn inp), DecodeEv b, CloseEv b],
        world = snd (cl b (snd (dec b w')))\<rparr>"
  by (simp add: ListFolder_def c_call_def json_Decode_def body_Close_def split: prod.splits)
lemma Search_transport_error:
  "call c ''/files/search'' (SearchIn (Some (fill_Mode i))) (world s) = ((body, Some e), w') \<Longrightarrow>
   Search c cl dec (Some i) s =
     Return None (Some e) (Some (fill_Mode i))
       \<lparr>trace = trace s @ [CallEv ''/files/search'' (SearchIn (Some (fill_Mode i)))], world = w'\<rparr>"
  by (simp add: Search_def c_call_def Let_def split: option.splits)

lemma Search_transport_ok:
  "call c ''/files/search'' (SearchIn (Some (fill_Mode i))) (world s) = ((Some b, None), w') \<Longrightarrow>
   Search c cl dec (Some i) s =
     Return (fst (fst (dec b w'))) (snd (fst (dec b w'))) (Some (fill_Mode i))
       \<lparr>trace = trace s @
          [CallEv ''/files/search'' (SearchIn (Some (fill_Mode i))), DecodeEv b, CloseEv b],
        world = snd (cl b (snd (dec b w')))\<rparr>"
  by (simp add: Search_def c_call_def json_Decode_def body_Close_def Let_def split: prod.splits)

lemma Upload_transport_error:
  "download c ''/files/upload'' (UploadIn (Some i)) (Reader i) (world s) = ((body, Some e), w') \<Longrightarrow>
   Upload c cl dec (Some i) s =
     Return None (Some e) (Some i)
       \<lparr>trace = trace s @ [DownloadEv ''/files/upload'' (UploadIn (Some i)) (Reader i)],
        world = w'\<rparr>"
  by (simp add: Upload_def c_download_def split: option.splits)

lemma Upload_transport_ok:
  "download c ''/files/upload'' (UploadIn (Some i)) (Reader i) (world s) = ((Some b, None), w') \<Longrightarrow>
   Upload c cl dec (Some i) s =
     Return (fst (fst (dec b w'))) (snd (fst (dec b w'))) (Some i)
       \<lparr>trace = trace s @
          [DownloadEv ''/files/upload'' (UploadIn (Some i)) (Reader i), DecodeEv b, CloseEv b],
        world = snd (cl b (snd (dec b w')))\<rparr>"
  by (simp add: Upload_def c_download_def json_Decode_def body_Close_def split: prod.splits)

lemma Download_transport_error:
  "download c ''/files/download'' (DownloadIn inp) None (world s) = ((body, Some e), w') \<Longrightarrow>
   Download c inp s =
     Return None (Some e) inp
       \<lparr>trace = trace s @ [DownloadEv ''/files/download'' (DownloadIn inp) None], world = w'\<rparr>"
  by (simp add: Download_def c_download_def split: option.splits)

lemma Download_transport_ok:
  "download c ''/files/download'' (DownloadIn inp) None (world s) = ((body, None), w') \<Longrightarrow>
   Download c inp s =
     Return (Some \<lparr>Body = body\<rparr>) None inp
       \<lparr>trace = trace s @ [DownloadEv ''/files/download'' (DownloadIn inp) None], world = w'\<rparr>"
  by (simp add: Download_def c_download_def split: option.splits)

text \<open>
  The panics: \<open>Search\<close> and \<open>Upload\<close> dereference a nil input before any request is
  made, and a primitive that returns neither body nor error makes a JSON operation panic
  right after the request.
\<close>

lemma nil_input_panics:
  "Search c cl dec None s = Panic s" "Upload c cl dec' None s = Panic s"
  by (simp_all add: Search_def Upload_def)

lemma nil_body_panics:
  "call c ''/files/get_metadata'' (GetMetadataIn inp) (world s) = ((None, None), w') \<Longrightarrow>
   GetMetadata c cl dec inp s =
     Panic \<lparr>trace = trace s @ [CallEv ''/files/get_metadata'' (GetMetadataIn inp)], world = w'\<rparr>"
  by (simp add: GetMetadata_def c_call_def)

lemma Upload_nil_body_panics:
  "download c ''/files/upload'' (UploadIn (Some i)) (Reader i) (world s) = ((None, None), w') \<Longrightarrow>
   Upload c cl dec (Some i) s =
     Panic \<lparr>trace = trace s @ [DownloadEv ''/files/upload'' (UploadIn (Some i)) (Reader i)],
            world = w'\<rparr>"
  by (simp add: Upload_def c_download_def)

text \<open>
  The default of \<open>Search\<close> is idempotent, it is the identity on a mode that is set, and
  it changes no field but \<open>Mode\<close>.
\<close>

lemma fill_Mode_empty:
  "SearchInput.Mode i = '''' \<Longrightarrow>
   fill_Mode i = i\<lparr>SearchInput.Mode := SearchModeFilename\<rparr>"
  by (simp add: fill_Mode_def)

lemma fill_Mode_set: "SearchInput.Mode i \<noteq> '''' \<Longrightarrow> fill_Mode i = i"
  by (simp add: fill_Mode_def)

lemma fill_Mode_idem: "fill_Mode (fill_Mode i) = fill_Mode i"
  by (simp add: fill_Mode_def SearchModeFilename_def)

lemma fill_Mode_only_Mode:
  "fill_Mode i = i\<lparr>SearchInput.Mode := SearchInput.Mode (fill_Mode i)\<rparr>"
  by (simp add: fill_Mode_def)

lemma Search_request:
  "take 1 (new_events s (Search c cl dec (Some i) s)) =
     [CallEv ''/files/search'' (SearchIn (Some (fill_Mode i)))]"
  by (simp add: Search_def Let_def c_call_def json_Decode_def body_Close_def new_events_def
      split: prod.splits option.splits)

section \<open>The claims\<close>

text \<open>
  Claim C1. For every \<open>SearchInput\<close> whose \<open>Mode\<close> is the empty string, \<open>Search\<close> behaves as
  it does on the same input with \<open>Mode\<close> set to \<open>SearchModeFilename\<close>: with the same
  client, decoder and starting state the two runs have the same outcome, that is the same
  output, the same error, the same record behind the input pointer, the same trace (so
  the same request was sent) and the same world. The request that is sent carries the
  mode \<open>filename\<close>.
\<close>

theorem Search_empty_Mode_is_Filename:
  assumes "SearchInput.Mode i = ''''"
  shows "Search c cl dec (Some i) s =
           Search c cl dec (Some (i\<lparr>SearchInput.Mode := SearchModeFilename\<rparr>)) s \<and>
         take 1 (new_events s (Search c cl dec (Some i) s)) =
           [CallEv ''/files/search'' (SearchIn (Some (i\<lparr>SearchInput.Mode := SearchModeFilename\<rparr>)))]"
proof -
  let ?j = "i\<lparr>SearchInput.Mode := SearchModeFilename\<rparr>"
  have filled: "fill_Mode i = ?j"
    using assms by (rule fill_Mode_empty)
  have "fill_Mode ?j = fill_Mode (fill_Mode i)"
    by (simp only: filled)
  then have same: "fill_Mode ?j = fill_Mode i"
    by (simp only: fill_Mode_idem)
  have "Search c cl dec (Some i) s = Search c cl dec (Some ?j) s"
    by (simp add: Search_def same)
  moreover have "take 1 (new_events s (Search c cl dec (Some i) s)) =
      [CallEv ''/files/search'' (SearchIn (Some ?j))]"
    by (simp only: Search_request filled)
  ultimately show ?thesis by simp
qed

theorem Search_empty_Mode_is_Filename_witness:
  "SearchInput.Mode a_SearchInput = '''' \<and>
   Search serving_Client closes (decodes a_SearchOutput) (Some a_SearchInput) s0 =
     Search serving_Client closes (decodes a_SearchOutput)
       (Some (a_SearchInput\<lparr>SearchInput.Mode := SearchModeFilename\<rparr>)) s0 \<and>
   take 1 (new_events s0
       (Search serving_Client closes (decodes a_SearchOutput) (Some a_SearchInput) s0)) =
     [CallEv ''/files/search''
        (SearchIn (Some (a_SearchInput\<lparr>SearchInput.Mode := SearchModeFilename\<rparr>)))]"
proof -
  have empty: "SearchInput.Mode a_SearchInput = ''''"
    by (simp add: a_SearchInput_def)
  from empty Search_empty_Mode_is_Filename [OF empty, of serving_Client closes
      "decodes a_SearchOutput" s0]
  show ?thesis by blast
qed

text \<open>
  Claim C2, as stated: no operation changes the input record of its caller. \<open>Search\<close>
  does: called with an empty \<open>Mode\<close> it returns with \<open>Mode = "filename"\<close> written into
  the caller's record, here on a run whose transport fails.
\<close>

theorem Search_writes_Mode_counterexample:
  "Search failing_Client closes (decodes a_SearchOutput) (Some a_SearchInput) s0 =
     Return None (Some timeout) (Some (a_SearchInput\<lparr>SearchInput.Mode := ''filename''\<rparr>))
       \<lparr>trace = [CallEv ''/files/search''
                   (SearchIn (Some (a_SearchInput\<lparr>SearchInput.Mode := ''filename''\<rparr>)))],
        world = 1\<rparr> \<and>
   a_SearchInput\<lparr>SearchInput.Mode := ''filename''\<rparr> \<noteq> a_SearchInput"
  by (simp add: Search_def Let_def fill_Mode_def SearchModeFilename_def a_SearchInput_def
      failing_Client_def c_call_def s0_def)

text \<open>
  Claim C2, amended. Every operation other than \<open>Search\<close> returns with the caller's input
  record as it was. \<open>Search\<close> returns with it as it was when its \<open>Mode\<close> was not empty, and
  with \<open>Mode\<close> overwritten by \<open>SearchModeFilename\<close>, every other field as it was, when
  its \<open>Mode\<close> was empty. (The transport primitives are given the record to read.)
\<close>

theorem input_record_after_call:
  "(GetMetadata c cl d_gm (Some i_gm) s = Return o_gm e_gm j_gm t_gm \<longrightarrow> j_gm = Some i_gm) \<and>
   (CreateFolder c cl d_cf (Some i_cf) s = Return o_cf e_cf j_cf t_cf \<longrightarrow> j_cf = Some i_cf) \<and>
   (Delete c cl d_del (Some i_del) s = Return o_del e_del j_del t_del \<longrightarrow> j_del = Some i_del) \<and>
   (Copy c cl d_cp (Some i_cp) s = Return o_cp e_cp j_cp t_cp \<longrightarrow> j_cp = Some i_cp) \<and>
   (Move c cl d_mv (Some i_mv) s = Return o_mv e_mv j_mv t_mv \<longrightarrow> j_mv = Some i_mv) \<and>
   (Restore c cl d_rs (Some i_rs) s = Return o_rs e_rs j_rs t_rs \<longrightarrow> j_rs = Some i_rs) \<and>
   (ListFolder c cl d_lf (Some i_lf) s = Return o_lf e_lf j_lf t_lf \<longrightarrow> j_lf = Some i_lf) \<and>
   (Search c cl d_se (Some i_se) s = Return o_se e_se j_se t_se \<longrightarrow>
      j_se = Some (if SearchInput.Mode i_se = '''' then i_se\<lparr>SearchInput.Mode := SearchModeFilename\<rparr>
                 else i_se)) \<and>
   (Upload c cl d_up (Some i_up) s = Return o_up e_up j_up t_up \<longrightarrow> j_up = Some i_up) \<and>
   (Download c (Some i_dl) s = Return o_dl e_dl j_dl t_dl \<longrightarrow> j_dl = Some i_dl)"
proof (intro conjI impI)
  assume "Search c cl d_se (Some i_se) s = Return o_se e_se j_se t_se"
  then have "j_se = Some (fill_Mode i_se)"
    by (auto simp: Search_def Let_def c_call_def json_Decode_def
        split: prod.splits option.splits)
  then show "j_se = Some (if SearchInput.Mode i_se = ''''
      then i_se\<lparr>SearchInput.Mode := SearchModeFilename\<rparr> else i_se)"
    by (simp add: fill_Mode_def)
qed (auto simp: GetMetadata_def CreateFolder_def Delete_def Copy_def Move_def Restore_def
    ListFolder_def Upload_def Download_def c_call_def c_download_def json_Decode_def
    split: prod.splits option.splits)

theorem input_record_after_call_witness:
  "GetMetadata failing_Client closes decode_fails_nil (Some a_GetMetadataInput) s0 =
     Return None (Some timeout) (Some a_GetMetadataInput)
       \<lparr>trace = [CallEv ''/files/get_metadata'' (GetMetadataIn (Some a_GetMetadataInput))],
        world = 1\<rparr> \<and>
   CreateFolder failing_Client closes decode_fails_nil (Some a_CreateFolderInput) s0 =
     Return None (Some timeout) (Some a_CreateFolderInput)
       \<lparr>trace = [CallEv ''/files/create_folder'' (CreateFolderIn (Some a_CreateFolderInput))],
        world = 1\<rparr> \<and>
   Delete failing_Client closes decode_fails_nil (Some a_DeleteInput) s0 =
     Return None (Some timeout) (Some a_DeleteInput)
       \<lparr>trace = [CallEv ''/files/delete'' (DeleteIn (Some a_DeleteInput))],
        world = 1\<rparr> \<and>
   Copy failing_Client closes decode_fails_nil (Some a_CopyInput) s0 =
     Return None (Some timeout) (Some a_CopyInput)
       \<lparr>trace = [CallEv ''/files/copy'' (CopyIn (Some a_CopyInput))],
        world = 1\<rparr> \<and>
   Move failing_Client closes decode_fails_nil (Some a_MoveInput) s0 =
     Return None (Some timeout) (Some a_MoveInput)
       \<lparr>trace = [CallEv ''/files/move'' (MoveIn (Some a_MoveInput))],
        world = 1\<rparr> \<and>
   Restore failing_Client closes decode_fails_nil (Some a_RestoreInput) s0 =
     Return None (Some timeout) (Some a_RestoreInput)
       \<lparr>trace = [CallEv ''/files/restore'' (RestoreIn (Some a_RestoreInput))],
        world = 1\<rparr> \<and>
   ListFolder failing_Client closes decode_fails_nil (Some a_ListFolderInput) s0 =
     Return None (Some timeout) (Some a_ListFolderInput)
       \<lparr>trace = [CallEv ''/files/list_folder'' (ListFolderIn (Some a_ListFolderInput))],
        world = 1\<rparr> \<and>
   Search failing_Client closes decode_fails_nil (Some a_SearchInput) s0 =
     Return None (Some timeout) (Some (a_SearchInput\<lparr>SearchInput.Mode := SearchModeFilename\<rparr>))
       \<lparr>trace = [CallEv ''/files/search''
                   (SearchIn (Some (a_SearchInput\<lparr>SearchInput.Mode := SearchModeFilename\<rparr>)))],
        world = 1\<rparr> \<and>
   Upload failing_Client closes decode_fails_nil (Some an_UploadInput) s0 =
     Return None (Some timeout) (Some an_UploadInput)
       \<lparr>trace = [DownloadEv ''/files/upload'' (UploadIn (Some an_UploadInput)) (Some 3)],
        world = 1\<rparr> \<and>
   Download failing_Client (Some a_DownloadInput) s0 =
     Return None (Some timeout) (Some a_DownloadInput)
       \<lparr>trace = [DownloadEv ''/files/download'' (DownloadIn (Some a_DownloadInput)) None],
        world = 1\<rparr>"
proof -
  have fails: "call failing_Client path inp (world s0) = ((None, Some timeout), 1)"
    "download failing_Client path inp r (world s0) = ((None, Some timeout), 1)" for path inp r
    by (simp_all add: failing_Client_def s0_def)
  note runs = GetMetadata_transport_error [OF fails(1)] CreateFolder_transport_error [OF fails(1)]
    Delete_transport_error [OF fails(1)] Copy_transport_error [OF fails(1)]
    Move_transport_error [OF fails(1)] Restore_transport_error [OF fails(1)]
    ListFolder_transport_error [OF fails(1)] Search_transport_error [OF fails(1)]
    Upload_transport_error [OF fails(2)] Download_transport_error [OF fails(2)]
  have filled: "fill_Mode a_SearchInput = a_SearchInput\<lparr>SearchInput.Mode := SearchModeFilename\<rparr>"
    by (simp add: fill_Mode_def a_SearchInput_def)
  have start: "trace s0 = []" and reader: "Reader an_UploadInput = Some 3"
    by (simp_all add: s0_def an_UploadInput_def)
  show ?thesis
    using input_record_after_call [where c = failing_Client and cl = closes and s = s0]
    by (simp add: runs filled start reader)
qed

text \<open>
  Claim C3. For every operation, when the transport primitive it uses (\<open>call\<close>, or
  \<open>download\<close> for \<open>Upload\<close> and \<open>Download\<close>) returns an error, the operation returns that
  very error, with a nil output and the input record it sent; the trace shows the one
  request and nothing after it (no second request, no decoding, no \<open>Close\<close>), and the
  world is the one the primitive left. This holds whatever body the primitive returned
  beside its error.
\<close>

theorem transport_error_returned_at_once:
  "(call c ''/files/get_metadata'' (GetMetadataIn i_gm) (world s) = ((body, Some e), w') \<longrightarrow>
      GetMetadata c cl d_gm i_gm s =
        Return None (Some e) i_gm
          \<lparr>trace = trace s @ [CallEv ''/files/get_metadata'' (GetMetadataIn i_gm)],
           world = w'\<rparr>) \<and>
   (call c ''/files/create_folder'' (CreateFolderIn i_cf) (world s) = ((body, Some e), w') \<longrightarrow>
      CreateFolder c cl d_cf i_cf s =
        Return None (Some e) i_cf
          \<lparr>trace = trace s @ [CallEv ''/files/create_folder'' (CreateFolderIn i_cf)],
           world = w'\<rparr>) \<and>
   (call c ''/files/delete'' (DeleteIn i_del) (world s) = ((body, Some e), w') \<longrightarrow>
      Delete c cl d_del i_del s =
        Return None (Some e) i_del
          \<lparr>trace = trace s @ [CallEv ''/files/delete'' (DeleteIn i_del)],
           world = w'\<rparr>) \<and>
   (call c ''/files/copy'' (CopyIn i_cp) (world s) = ((body, Some e), w') \<longrightarrow>
      Copy c cl d_cp i_cp s =
        Return None (Some e) i_cp
          \<lparr>trace = trace s @ [CallEv ''/files/copy'' (CopyIn i_cp)],
           world = w'\<rparr>) \<and>
   (call c ''/files/move'' (MoveIn i_mv) (world s) = ((body, Some e), w') \<longrightarrow>
      Move c cl d_mv i_mv s =
        Return None (Some e) i_mv
          \<lparr>trace = trace s @ [CallEv ''/files/move'' (MoveIn i_mv)],
           world = w'\<rparr>) \<and>
   (call c ''/files/restore'' (RestoreIn i_rs) (world s) = ((body, Some e), w') \<longrightarrow>
      Restore c cl d_rs i_rs s =
        Return None (Some e) i_rs
          \<lparr>trace = trace s @ [CallEv ''/files/restore'' (RestoreIn i_rs)],
           world = w'\<rparr>) \<and>
   (call c ''/files/list_folder'' (ListFolderIn i_lf) (world s) = ((body, Some e), w') \<longrightarrow>
      ListFolder c cl d_lf i_lf s =
        Return None (Some e) i_lf
          \<lparr>trace = trace s @ [CallEv ''/files/list_folder'' (ListFolderIn i_lf)],
           world = w'\<rparr>) \<and>
   (call c ''/files/search'' (SearchIn (Some (fill_Mode i_se))) (world s) = ((body, Some e), w') \<longrightarrow>
      Search c cl d_se (Some i_se) s =
        Return None (Some e) (Some (fill_Mode i_se))
          \<lparr>trace = trace s @ [CallEv ''/files/search'' (SearchIn (Some (fill_Mode i_se)))],
           world = w'\<rparr>) \<and>
   (download c ''/files/upload'' (UploadIn (Some i_up)) (Reader i_up) (world s) =
      ((body, Some e), w') \<longrightarrow>
      Upload c cl d_up (Some i_up) s =
        Return None (Some e) (Some i_up)
          \<lparr>trace = trace s @ [DownloadEv ''/files/upload'' (UploadIn (Some i_up)) (Reader i_up)],
           world = w'\<rparr>) \<and>
   (download c ''/files/download'' (DownloadIn i_dl) None (world s) = ((body, Some e), w') \<longrightarrow>
      Download c i_dl s =
        Return None (Some e) i_dl
          \<lparr>trace = trace s @ [DownloadEv ''/files/download'' (DownloadIn i_dl) None],
           world = w'\<rparr>)"
  by (intro conjI impI;
      (erule GetMetadata_transport_error | erule CreateFolder_transport_error |
       erule Delete_transport_error | erule Copy_transport_error | erule Move_transport_error |
       erule Restore_transport_error | erule ListFolder_transport_error |
       erule Search_transport_error | erule Upload_transport_error |
       erule Download_transport_error))

theorem transport_error_returned_at_once_witness:
  "call failing_Client ''/files/get_metadata'' (GetMetadataIn (Some a_GetMetadataInput))
       (world s0) =
     ((None, Some timeout), 1) \<and>
   GetMetadata failing_Client closes decode_fails_nil (Some a_GetMetadataInput) s0 =
     Return None (Some timeout) (Some a_GetMetadataInput)
       \<lparr>trace = [CallEv ''/files/get_metadata'' (GetMetadataIn (Some a_GetMetadataInput))],
        world = 1\<rparr> \<and>
   call failing_Client ''/files/create_folder'' (CreateFolderIn (Some a_CreateFolderInput))
       (world s0) =
     ((None, Some timeout), 1) \<and>
   CreateFolder failing_Client closes decode_fails_nil (Some a_CreateFolderInput) s0 =
     Return None (Some timeout) (Some a_CreateFolderInput)
       \<lparr>trace = [CallEv ''/files/create_folder'' (CreateFolderIn (Some a_CreateFolderInput))],
        world = 1\<rparr> \<and>
   call failing_Client ''/files/delete'' (DeleteIn (Some a_DeleteInput))
       (world s0) =
     ((None, Some timeout), 1) \<and>
   Delete failing_Client closes decode_fails_nil (Some a_DeleteInput) s0 =
     Return None (Some timeout) (Some a_DeleteInput)
       \<lparr>trace = [CallEv ''/files/delete'' (DeleteIn (Some a_DeleteInput))],
        world = 1\<rparr> \<and>
   call failing_Client ''/files/copy'' (CopyIn (Some a_CopyInput))
       (world s0) =
     ((None, Some timeout), 1) \<and>
   Copy failing_Client closes decode_fails_nil (Some a_CopyInput) s0 =
     Return None (Some timeout) (Some a_CopyInput)
       \<lparr>trace = [CallEv ''/files/copy'' (CopyIn (Some a_CopyInput))],
        world = 1\<rparr> \<and>
   call failing_Client ''/files/move'' (MoveIn (Some a_MoveInput))
       (world s0) =
     ((None, Some timeout), 1) \<and>
   Move failing_Client closes decode_fails_nil (Some a_MoveInput) s0 =
     Return None (Some timeout) (Some a_MoveInput)
       \<lparr>trace = [CallEv ''/files/move'' (MoveIn (Some a_MoveInput))],
        world = 1\<rparr> \<and>
   call failing_Client ''/files/restore'' (RestoreIn (Some a_RestoreInput))
       (world s0) =
     ((None, Some timeout), 1) \<and>
   Restore failing_Client closes decode_fails_nil (Some a_RestoreInput) s0 =
     Return None (Some timeout) (Some a_RestoreInput)
       \<lparr>trace = [CallEv ''/files/restore'' (RestoreIn (Some a_RestoreInput))],
        world = 1\<rparr> \<and>
   call failing_Client ''/files/list_folder'' (ListFolderIn (Some a_ListFolderInput))
       (world s0) =
     ((None, Some timeout), 1) \<and>
   ListFolder failing_Client closes decode_fails_nil (Some a_ListFolderInput) s0 =
     Return None (Some timeout) (Some a_ListFolderInput)
       \<lparr>trace = [CallEv ''/files/list_folder'' (ListFolderIn (Some a_ListFolderInput))],
        world = 1\<rparr> \<and>
   call failing_Client ''/files/search'' (SearchIn (Some (fill_Mode a_SearchInput))) (world s0) =
     ((None, Some timeout), 1) \<and>
   Search failing_Client closes decode_fails_nil (Some a_SearchInput) s0 =
     Return None (Some timeout) (Some (fill_Mode a_SearchInput))
       \<lparr>trace = [CallEv ''/files/search'' (SearchIn (Some (fill_Mode a_SearchInput)))],
        world = 1\<rparr> \<and>
   download failing_Client ''/files/upload'' (UploadIn (Some an_UploadInput))
       (Reader an_UploadInput) (world s0) =
     ((None, Some timeout), 1) \<and>
   Upload failing_Client closes decode_fails_nil (Some an_UploadInput) s0 =
     Return None (Some timeout) (Some an_UploadInput)
       \<lparr>trace = [DownloadEv ''/files/upload'' (UploadIn (Some an_UploadInput))
                   (Reader an_UploadInput)],
        world = 1\<rparr> \<and>
   download failing_Client ''/files/download'' (DownloadIn (Some a_DownloadInput)) None
       (world s0) =
     ((None, Some timeout), 1) \<and>
   Download failing_Client (Some a_DownloadInput) s0 =
     Return None (Some timeout) (Some a_DownloadInput)
       \<lparr>trace = [DownloadEv ''/files/download'' (DownloadIn (Some a_DownloadInput)) None],
        world = 1\<rparr>"
  using transport_error_returned_at_once [where c = failing_Client and cl = closes and s = s0 and
      body = None and e = timeout and w' = 1 and
      d_gm = decode_fails_nil and
      d_cf = decode_fails_nil and
      d_del = decode_fails_nil and
      d_cp = decode_fails_nil and
      d_mv = decode_fails_nil and
      d_rs = decode_fails_nil and
      d_lf = decode_fails_nil and
      d_se = decode_fails_nil and d_up = decode_fails_nil and
      i_gm = "Some a_GetMetadataInput" and
      i_cf = "Some a_CreateFolderInput" and
      i_del = "Some a_DeleteInput" and
      i_cp = "Some a_CopyInput" and
      i_mv = "Some a_MoveInput" and
      i_rs = "Some a_RestoreInput" and
      i_lf = "Some a_ListFolderInput" and
      i_se = a_SearchInput and i_up = an_UploadInput and i_dl = "Some a_DownloadInput"]
  by (simp add: failing_Client_def s0_def)

text \<open>
  Claim C4, as stated: when decoding fails, no partial result is returned. The operations
  return whatever the decoder left behind the output pointer, together with its error.
  A decoder that fails after it has allocated the output and set some of its fields, as
  encoding/json does on a field of the wrong type, makes \<open>GetMetadata\<close> return that
  partly filled output beside the error.
\<close>

theorem GetMetadata_partial_output_counterexample:
  "decode_fails_partial \<lparr>GetMetadataOutput.Metadata = partial_Metadata\<rparr> 7 1 =
     ((Some \<lparr>GetMetadataOutput.Metadata = partial_Metadata\<rparr>, Some type_mismatch), 11) \<and>
   GetMetadata serving_Client closes
       (decode_fails_partial \<lparr>GetMetadataOutput.Metadata = partial_Metadata\<rparr>)
       (Some a_GetMetadataInput) s0 =
     Return (Some \<lparr>GetMetadataOutput.Metadata = partial_Metadata\<rparr>) (Some type_mismatch)
       (Some a_GetMetadataInput)
       \<lparr>trace = [CallEv ''/files/get_metadata'' (GetMetadataIn (Some a_GetMetadataInput)),
                 DecodeEv 7, CloseEv 7],
        world = 111\<rparr> \<and>
   Metadata.Name partial_Metadata = ''a.txt''"
  by (simp add: GetMetadata_def c_call_def json_Decode_def body_Close_def serving_Client_def
      decode_fails_partial_def closes_def s0_def partial_Metadata_def)

text \<open>
  Claim C4, amended. For every JSON-decoded operation, when the transport succeeded and
  decoding the response body fails, the operation returns the decoder's error together
  with exactly the output the decoder left behind the output pointer: nil when the
  decoder had allocated nothing, and otherwise the record as far as the decoder had
  filled it. The operation itself neither clears nor completes the output.
\<close>

theorem decode_error_and_output_passed_on:
  "(call c ''/files/get_metadata'' (GetMetadataIn i_gm) (world s) = ((Some b, None), w') \<and>
    d_gm b w' = ((o_gm, Some e_gm), w'') \<longrightarrow>
      GetMetadata c cl d_gm i_gm s =
        Return o_gm (Some e_gm) i_gm
          \<lparr>trace = trace s @
             [CallEv ''/files/get_metadata'' (GetMetadataIn i_gm), DecodeEv b, CloseEv b],
           world = snd (cl b w'')\<rparr>) \<and>
   (call c ''/files/create_folder'' (CreateFolderIn i_cf) (world s) = ((Some b, None), w') \<and>
    d_cf b w' = ((o_cf, Some e_cf), w'') \<longrightarrow>
      CreateFolder c cl d_cf i_cf s =
        Return o_cf (Some e_cf) i_cf
          \<lparr>trace = trace s @
             [CallEv ''/files/create_folder'' (CreateFolderIn i_cf), DecodeEv b, CloseEv b],
           world = snd (cl b w'')\<rparr>) \<and>
   (call c ''/files/delete'' (DeleteIn i_del) (world s) = ((Some b, None), w') \<and>
    d_del b w' = ((o_del, Some e_del), w'') \<longrightarrow>
      Delete c cl d_del i_del s =
        Return o_del (Some e_del) i_del
          \<lparr>trace = trace s @
             [CallEv ''/files/delete'' (DeleteIn i_del), DecodeEv b, CloseEv b],
           world = snd (cl b w'')\<rparr>) \<and>
   (call c ''/files/copy'' (CopyIn i_cp) (world s) = ((Some b, None), w') \<and>
    d_cp b w' = ((o_cp, Some e_cp), w'') \<longrightarrow>
      Copy c cl d_cp i_cp s =
        Return o_cp (Some e_cp) i_cp
          \<lparr>trace = trace s @
             [CallEv ''/files/copy'' (CopyIn i_cp), DecodeEv b, CloseEv b],
           world = snd (cl b w'')\<rparr>) \<and>
   (call c ''/files/move'' (MoveIn i_mv) (world s) = ((Some b, None), w') \<and>
    d_mv b w' = ((o_mv, Some e_mv), w'') \<longrightarrow>
      Move c cl d_mv i_mv s =
        Return o_mv (Some e_mv) i_mv
          \<lparr>trace = trace s @
             [CallEv ''/files/move'' (MoveIn i_mv), DecodeEv b, CloseEv b],
           world = snd (cl b w'')\<rparr>) \<and>
   (call c ''/files/restore'' (RestoreIn i_rs) (world s) = ((Some b, None), w') \<and>
    d_rs b w' = ((o_rs, Some e_rs), w'') \<longrightarrow>
      Restore c cl d_rs i_rs s =
        Return o_rs (Some e_rs) i_rs
          \<lparr>trace = trace s @
             [CallEv ''/files/restore'' (RestoreIn i_rs), DecodeEv b, CloseEv b],
           world = snd (cl b w'')\<rparr>) \<and>
   (call c ''/files/list_folder'' (ListFolderIn i_lf) (world s) = ((Some b, None), w') \<and>
    d_lf b w' = ((o_lf, Some e_lf), w'') \<longrightarrow>
      ListFolder c cl d_lf i_lf s =
        Return o_lf (Some e_lf) i_lf
          \<lparr>trace = trace s @
             [CallEv ''/files/list_folder'' (ListFolderIn i_lf), DecodeEv b, CloseEv b],
           world = snd (cl b w'')\<rparr>) \<and>
   (call c ''/files/search'' (SearchIn (Some (fill_Mode i_se))) (world s) = ((Some b, None), w') \<and>
    d_se b w' = ((o_se, Some e_se), w'') \<longrightarrow>
      Search c cl d_se (Some i_se) s =
        Return o_se (Some e_se) (Some (fill_Mode i_se))
          \<lparr>trace = trace s @
             [CallEv ''/files/search'' (SearchIn (Some (fill_Mode i_se))), DecodeEv b, CloseEv b],
           world = snd (cl b w'')\<rparr>) \<and>
   (download c ''/files/upload'' (UploadIn (Some i_up)) (Reader i_up) (world s) =
      ((Some b, None), w') \<and>
    d_up b w' = ((o_up, Some e_up), w'') \<longrightarrow>
      Upload c cl d_up (Some i_up) s =
        Return o_up (Some e_up) (Some i_up)
          \<lparr>trace = trace s @
             [DownloadEv ''/files/upload'' (UploadIn (Some i_up)) (Reader i_up), DecodeEv b,
              CloseEv b],
           world = snd (cl b w'')\<rparr>)"
  by (intro conjI impI; elim conjE)
    (simp_all add: GetMetadata_transport_ok CreateFolder_transport_ok Delete_transport_ok
      Copy_transport_ok Move_transport_ok Restore_transport_ok ListFolder_transport_ok
      Search_transport_ok Upload_transport_ok)

theorem decode_error_and_output_passed_on_witness:
  "call serving_Client ''/files/get_metadata'' (GetMetadataIn (Some a_GetMetadataInput))
       (world s0) =
     ((Some 7, None), 1) \<and>
   decode_fails_partial \<lparr>GetMetadataOutput.Metadata = partial_Metadata\<rparr> 7 1 =
     ((Some \<lparr>GetMetadataOutput.Metadata = partial_Metadata\<rparr>, Some type_mismatch), 11) \<and>
   GetMetadata serving_Client closes (decode_fails_partial \<lparr>GetMetadataOutput.Metadata = partial_Metadata\<rparr>)
       (Some a_GetMetadataInput) s0 =
     Return (Some \<lparr>GetMetadataOutput.Metadata = partial_Metadata\<rparr>) (Some type_mismatch)
       (Some a_GetMetadataInput)
       \<lparr>trace = [CallEv ''/files/get_metadata'' (GetMetadataIn (Some a_GetMetadataInput)),
                 DecodeEv 7, CloseEv 7],
        world = 111\<rparr> \<and>
   CreateFolder serving_Client closes decode_fails_nil
       (Some a_CreateFolderInput) s0 =
     Return None (Some syntax_error)
       (Some a_CreateFolderInput)
       \<lparr>trace = [CallEv ''/files/create_folder'' (CreateFolderIn (Some a_CreateFolderInput)),
                 DecodeEv 7, CloseEv 7],
        world = 111\<rparr> \<and>
   Delete serving_Client closes (decode_fails_partial \<lparr>DeleteOutput.Metadata = partial_Metadata\<rparr>)
       (Some a_DeleteInput) s0 =
     Return (Some \<lparr>DeleteOutput.Metadata = partial_Metadata\<rparr>) (Some type_mismatch)
       (Some a_DeleteInput)
       \<lparr>trace = [CallEv ''/files/delete'' (DeleteIn (Some a_DeleteInput)),
                 DecodeEv 7, CloseEv 7],
        world = 111\<rparr> \<and>
   Copy serving_Client closes (decode_fails_partial \<lparr>CopyOutput.Metadata = partial_Metadata\<rparr>)
       (Some a_CopyInput) s0 =
     Return (Some \<lparr>CopyOutput.Metadata = partial_Metadata\<rparr>) (Some type_mismatch)
       (Some a_CopyInput)
       \<lparr>trace = [CallEv ''/files/copy'' (CopyIn (Some a_CopyInput)),
                 DecodeEv 7, CloseEv 7],
        world = 111\<rparr> \<and>
   Move serving_Client closes (decode_fails_partial \<lparr>MoveOutput.Metadata = partial_Metadata\<rparr>)
       (Some a_MoveInput) s0 =
     Return (Some \<lparr>MoveOutput.Metadata = partial_Metadata\<rparr>) (Some type_mismatch)
       (Some a_MoveInput)
       \<lparr>trace = [CallEv ''/files/move'' (MoveIn (Some a_MoveInput)),
                 DecodeEv 7, CloseEv 7],
        world = 111\<rparr> \<and>
   Restore serving_Client closes (decode_fails_partial \<lparr>RestoreOutput.Metadata = partial_Metadata\<rparr>)
       (Some a_RestoreInput) s0 =
     Return (Some \<lparr>RestoreOutput.Metadata = partial_Metadata\<rparr>) (Some type_mismatch)
       (Some a_RestoreInput)
       \<lparr>trace = [CallEv ''/files/restore'' (RestoreIn (Some a_RestoreInput)),
                 DecodeEv 7, CloseEv 7],
        world = 111\<rparr> \<and>
   ListFolder serving_Client closes decode_fails_nil
       (Some a_ListFolderInput) s0 =
     Return None (Some syntax_error)
       (Some a_ListFolderInput)
       \<lparr>trace = [CallEv ''/files/list_folder'' (ListFolderIn (Some a_ListFolderInput)),
                 DecodeEv 7, CloseEv 7],
        world = 111\<rparr> \<and>
   Search serving_Client closes decode_fails_nil (Some a_SearchInput) s0 =
     Return None (Some syntax_error) (Some (fill_Mode a_SearchInput))
       \<lparr>trace = [CallEv ''/files/search'' (SearchIn (Some (fill_Mode a_SearchInput))),
                 DecodeEv 7, CloseEv 7],
        world = 111\<rparr> \<and>
   Upload serving_Client closes
       (decode_fails_partial \<lparr>UploadOutput.Metadata = partial_Metadata\<rparr>)
       (Some an_UploadInput) s0 =
     Return (Some \<lparr>UploadOutput.Metadata = partial_Metadata\<rparr>) (Some type_mismatch)
       (Some an_UploadInput)
       \<lparr>trace = [DownloadEv ''/files/upload'' (UploadIn (Some an_UploadInput))
                   (Reader an_UploadInput),
                 DecodeEv 7, CloseEv 7],
        world = 111\<rparr>"
  using decode_error_and_output_passed_on [where c = serving_Client and cl = closes and
      s = s0 and b = 7 and w' = 1 and w'' = 11 and
      i_gm = "Some a_GetMetadataInput" and
      d_gm = "decode_fails_partial \<lparr>GetMetadataOutput.Metadata = partial_Metadata\<rparr>" and
      o_gm = "Some \<lparr>GetMetadataOutput.Metadata = partial_Metadata\<rparr>" and
      e_gm = type_mismatch and
      i_cf = "Some a_CreateFolderInput" and
      d_cf = decode_fails_nil and o_cf = None and e_cf = syntax_error and
      i_del = "Some a_DeleteInput" and
      d_del = "decode_fails_partial \<lparr>DeleteOutput.Metadata = partial_Metadata\<rparr>" and
      o_del = "Some \<lparr>DeleteOutput.Metadata = partial_Metadata\<rparr>" and
      e_del = type_mismatch and
      i_cp = "Some a_CopyInput" and
      d_cp = "decode_fails_partial \<lparr>CopyOutput.Metadata = partial_Metadata\<rparr>" and
      o_cp = "Some \<lparr>CopyOutput.Metadata = partial_Metadata\<rparr>" and
      e_cp = type_mismatch and
      i_mv = "Some a_MoveInput" and
      d_mv = "decode_fails_partial \<lparr>MoveOutput.Metadata = partial_Metadata\<rparr>" and
      o_mv = "Some \<lparr>MoveOutput.Metadata = partial_Metadata\<rparr>" and
      e_mv = type_mismatch and
      i_rs = "Some a_RestoreInput" and
      d_rs = "decode_fails_partial \<lparr>RestoreOutput.Metadata = partial_Metadata\<rparr>" and
      o_rs = "Some \<lparr>RestoreOutput.Metadata = partial_Metadata\<rparr>" and
      e_rs = type_mismatch and
      i_lf = "Some a_ListFolderInput" and
      d_lf = decode_fails_nil and o_lf = None and e_lf = syntax_error and
      i_se = a_SearchInput and d_se = decode_fails_nil and o_se = None and e_se = syntax_error and
      i_up = an_UploadInput and
      d_up = "decode_fails_partial \<lparr>UploadOutput.Metadata = partial_Metadata\<rparr>" and
      o_up = "Some \<lparr>UploadOutput.Metadata = partial_Metadata\<rparr>" and e_up = type_mismatch]
  by (simp add: serving_Client_def s0_def decode_fails_partial_def decode_fails_nil_def
      closes_def)

text \<open>
  Claim C5. For every JSON-decoded operation, when the transport primitive succeeded with
  a body \<open>b\<close>, the operation returns, and when it returns the body has been closed: the
  events it added are the request, the decoding of \<open>b\<close> and, last, the \<open>Close\<close> of \<open>b\<close>,
  and the world is the one \<open>Close\<close> left. Nothing is assumed of the decoder, so this
  holds when decoding succeeds and when it fails.
\<close>

theorem body_closed_before_return:
  "(call c ''/files/get_metadata'' (GetMetadataIn i_gm) (world s) = ((Some b, None), w') \<longrightarrow>
      (\<exists>out err. GetMetadata c cl d_gm i_gm s =
         Return out err i_gm
           \<lparr>trace = trace s @
             [CallEv ''/files/get_metadata'' (GetMetadataIn i_gm), DecodeEv b, CloseEv b],
            world = snd (cl b (snd (d_gm b w')))\<rparr>)) \<and>
   (call c ''/files/create_folder'' (CreateFolderIn i_cf) (world s) = ((Some b, None), w') \<longrightarrow>
      (\<exists>out err. CreateFolder c cl d_cf i_cf s =
         Return out err i_cf
           \<lparr>trace = trace s @
             [CallEv ''/files/create_folder'' (CreateFolderIn i_cf), DecodeEv b, CloseEv b],
            world = snd (cl b (snd (d_cf b w')))\<rparr>)) \<and>
   (call c ''/files/delete'' (DeleteIn i_del) (world s) = ((Some b, None), w') \<longrightarrow>
      (\<exists>out err. Delete c cl d_del i_del s =
         Return out err i_del
           \<lparr>trace = trace s @
             [CallEv ''/files/delete'' (DeleteIn i_del), DecodeEv b, CloseEv b],
            world = snd (cl b (snd (d_del b w')))\<rparr>)) \<and>
   (call c ''/files/copy'' (CopyIn i_cp) (world s) = ((Some b, None), w') \<longrightarrow>
      (\<exists>out err. Copy c cl d_cp i_cp s =
         Return out err i_cp
           \<lparr>trace = trace s @
             [CallEv ''/files/copy'' (CopyIn i_cp), DecodeEv b, CloseEv b],
            world = snd (cl b (snd (d_cp b w')))\<rparr>)) \<and>
   (call c ''/files/move'' (MoveIn i_mv) (world s) = ((Some b, None), w') \<longrightarrow>
      (\<exists>out err. Move c cl d_mv i_mv s =
         Return out err i_mv
           \<lparr>trace = trace s @
             [CallEv ''/files/move'' (MoveIn i_mv), DecodeEv b, CloseEv b],
            world = snd (cl b (snd (d_mv b w')))\<rparr>)) \<and>
   (call c ''/files/restore'' (RestoreIn i_rs) (world s) = ((Some b, None), w') \<longrightarrow>
      (\<exists>out err. Restore c cl d_rs i_rs s =
         Return out err i_rs
           \<lparr>trace = trace s @
             [CallEv ''/files/restore'' (RestoreIn i_rs), DecodeEv b, CloseEv b],
            world = snd (cl b (snd (d_rs b w')))\<rparr>)) \<and>
   (call c ''/files/list_folder'' (ListFolderIn i_lf) (world s) = ((Some b, None), w') \<longrightarrow>
      (\<exists>out err. ListFolder c cl d_lf i_lf s =
         Return out err i_lf
           \<lparr>trace = trace s @
             [CallEv ''/files/list_folder'' (ListFolderIn i_lf), DecodeEv b, CloseEv b],
            world = snd (cl b (snd (d_lf b w')))\<rparr>)) \<and>
   (call c ''/files/search'' (SearchIn (Some (fill_Mode i_se))) (world s) = ((Some b, None), w') \<longrightarrow>
      (\<exists>out err. Search c cl d_se (Some i_se) s =
         Return out err (Some (fill_Mode i_se))
           \<lparr>trace = trace s @
              [CallEv ''/files/search'' (SearchIn (Some (fill_Mode i_se))), DecodeEv b, CloseEv b],
            world = snd (cl b (snd (d_se b w')))\<rparr>)) \<and>
   (download c ''/files/upload'' (UploadIn (Some i_up)) (Reader i_up) (world s) =
      ((Some b, None), w') \<longrightarrow>
      (\<exists>out err. Upload c cl d_up (Some i_up) s =
         Return out err (Some i_up)
           \<lparr>trace = trace s @
              [DownloadEv ''/files/upload'' (UploadIn (Some i_up)) (Reader i_up), DecodeEv b,
               CloseEv b],
            world = snd (cl b (snd (d_up b w')))\<rparr>))"
  by (intro conjI impI)
    (simp_all add: GetMetadata_transport_ok CreateFolder_transport_ok Delete_transport_ok
      Copy_transport_ok Move_transport_ok Restore_transport_ok ListFolder_transport_ok
      Search_transport_ok Upload_transport_ok)

theorem body_closed_before_return_witness:
  "call serving_Client ''/files/get_metadata'' (GetMetadataIn (Some a_GetMetadataInput))
       (world s0) =
     ((Some 7, None), 1) \<and>
   (\<exists>out err.
      GetMetadata serving_Client closes (decodes \<lparr>GetMetadataOutput.Metadata = a_Metadata\<rparr>)
        (Some a_GetMetadataInput) s0 =
      Return out err (Some a_GetMetadataInput)
        \<lparr>trace = [CallEv ''/files/get_metadata'' (GetMetadataIn (Some a_GetMetadataInput)),
                  DecodeEv 7, CloseEv 7],
        world = 111\<rparr>) \<and>
   (\<exists>out err.
      CreateFolder serving_Client closes decode_fails_nil
        (Some a_CreateFolderInput) s0 =
      Return out err (Some a_CreateFolderInput)
        \<lparr>trace = [CallEv ''/files/create_folder'' (CreateFolderIn (Some a_CreateFolderInput)),
                  DecodeEv 7, CloseEv 7],
        world = 111\<rparr>) \<and>
   (\<exists>out err.
      Delete serving_Client closes (decodes \<lparr>DeleteOutput.Metadata = a_Metadata\<rparr>)
        (Some a_DeleteInput) s0 =
      Return out err (Some a_DeleteInput)
        \<lparr>trace = [CallEv ''/files/delete'' (DeleteIn (Some a_DeleteInput)),
                  DecodeEv 7, CloseEv 7],
        world = 111\<rparr>) \<and>
   (\<exists>out err.
      Copy serving_Client closes (decodes \<lparr>CopyOutput.Metadata = a_Metadata\<rparr>)
        (Some a_CopyInput) s0 =
      Return out err (Some a_CopyInput)
        \<lparr>trace = [CallEv ''/files/copy'' (CopyIn (Some a_CopyInput)),
                  DecodeEv 7, CloseEv 7],
        world = 111\<rparr>) \<and>
   (\<exists>out err.
      Move serving_Client closes (decodes \<lparr>MoveOutput.Metadata = a_Metadata\<rparr>)
        (Some a_MoveInput) s0 =
      Return out err (Some a_MoveInput)
        \<lparr>trace = [CallEv ''/files/move'' (MoveIn (Some a_MoveInput)),
                  DecodeEv 7, CloseEv 7],
        world = 111\<rparr>) \<and>
   (\<exists>out err.
      Restore serving_Client closes (decodes \<lparr>RestoreOutput.Metadata = a_Metadata\<rparr>)
        (Some a_RestoreInput) s0 =
      Return out err (Some a_RestoreInput)
        \<lparr>trace = [CallEv ''/files/restore'' (RestoreIn (Some a_RestoreInput)),
                  DecodeEv 7, CloseEv 7],
        world = 111\<rparr>) \<and>
   (\<exists>out err.
      ListFolder serving_Client closes decode_fails_nil
        (Some a_ListFolderInput) s0 =
      Return out err (Some a_ListFolderInput)
        \<lparr>trace = [CallEv ''/files/list_folder'' (ListFolderIn (Some a_ListFolderInput)),
                  DecodeEv 7, CloseEv 7],
        world = 111\<rparr>) \<and>
   (\<exists>out err. Search serving_Client closes (decodes a_SearchOutput) (Some a_SearchInput) s0 =
      Return out err (Some (fill_Mode a_SearchInput))
        \<lparr>trace = [CallEv ''/files/search'' (SearchIn (Some (fill_Mode a_SearchInput))),
                  DecodeEv 7, CloseEv 7],
         world = 111\<rparr>) \<and>
   (\<exists>out err. Upload serving_Client closes decode_fails_nil (Some an_UploadInput) s0 =
      Return out err (Some an_UploadInput)
        \<lparr>trace = [DownloadEv ''/files/upload'' (UploadIn (Some an_UploadInput))
                    (Reader an_UploadInput),
                  DecodeEv 7, CloseEv 7],
         world = 111\<rparr>)"
  using body_closed_before_return [where c = serving_Client and cl = closes and s = s0 and
      b = 7 and w' = 1 and
      i_gm = "Some a_GetMetadataInput" and
      i_cf = "Some a_CreateFolderInput" and
      i_del = "Some a_DeleteInput" and
      i_cp = "Some a_CopyInput" and
      i_mv = "Some a_MoveInput" and
      i_rs = "Some a_RestoreInput" and
      i_lf = "Some a_ListFolderInput" and
      i_se = a_SearchInput and i_up = an_UploadInput and
      d_gm = "decodes \<lparr>GetMetadataOutput.Metadata = a_Metadata\<rparr>" and
      d_cf = decode_fails_nil and
      d_del = "decodes \<lparr>DeleteOutput.Metadata = a_Metadata\<rparr>" and
      d_cp = "decodes \<lparr>CopyOutput.Metadata = a_Metadata\<rparr>" and
      d_mv = "decodes \<lparr>MoveOutput.Metadata = a_Metadata\<rparr>" and
      d_rs = "decodes \<lparr>RestoreOutput.Metadata = a_Metadata\<rparr>" and
      d_lf = decode_fails_nil and
      d_se = "decodes a_SearchOutput" and d_up = decode_fails_nil]
  by (simp add: serving_Client_def s0_def decodes_def decode_fails_nil_def closes_def)

text \<open>
  Claim C6. For every \<open>DownloadInput\<close>, when the \<open>download\<close> primitive returns a body and
  no error, \<open>Download\<close> returns a \<open>DownloadOutput\<close> whose \<open>Body\<close> is that very stream and
  a nil error. The only event it added is the request: the operation neither read nor
  closed the stream, and the world, which holds the condition of every stream, is exactly
  the one the primitive left. So whatever held of the stream when the transport delivered
  it (\<open>open_unread\<close>: it is open and nothing of it was read) holds when \<open>Download\<close>
  returns it to the caller.
\<close>

theorem Download_hands_over_the_body:
  assumes "download c ''/files/download'' (DownloadIn inp) None (world s) = ((body, None), w')"
    and "open_unread body w'"
  shows "Download c inp s =
           Return (Some \<lparr>Body = body\<rparr>) None inp
             \<lparr>trace = trace s @ [DownloadEv ''/files/download'' (DownloadIn inp) None],
              world = w'\<rparr> \<and>
         open_unread body (world (final_state (Download c inp s)))"
proof -
  have run: "Download c inp s =
      Return (Some \<lparr>Body = body\<rparr>) None inp
        \<lparr>trace = trace s @ [DownloadEv ''/files/download'' (DownloadIn inp) None], world = w'\<rparr>"
    using assms(1) by (rule Download_transport_ok)
  then have "world (final_state (Download c inp s)) = w'"
    by simp
  with run assms(2) show ?thesis
    by simp
qed

text \<open>
  On the counter world a decoding adds 10 and a \<open>Close\<close> 100: a world below 10 has seen
  neither.
\<close>

theorem Download_hands_over_the_body_witness:
  "download serving_Client ''/files/download'' (DownloadIn (Some a_DownloadInput)) None
       (world s0) =
     ((Some 7, None), 1) \<and>
   Download serving_Client (Some a_DownloadInput) s0 =
     Return (Some \<lparr>Body = Some 7\<rparr>) None (Some a_DownloadInput)
       \<lparr>trace = [DownloadEv ''/files/download'' (DownloadIn (Some a_DownloadInput)) None],
        world = 1\<rparr> \<and>
   world (final_state (Download serving_Client (Some a_DownloadInput) s0)) < 10"
proof -
  have served: "download serving_Client ''/files/download'' (DownloadIn (Some a_DownloadInput))
      None (world s0) = ((Some 7, None), 1)"
    by (simp add: serving_Client_def s0_def)
  have fresh: "(\<lambda>b w. w < 10) (Some (7::nat)) (1::nat)"
    by simp
  have "trace s0 = []"
    by (simp add: s0_def)
  with Download_hands_over_the_body [of serving_Client "Some a_DownloadInput" s0 "Some 7" 1
      "\<lambda>b w. w < 10", OF served fresh] served
  show ?thesis
    by simp
qed

text \<open>
  Claim C7. \<open>Upload\<close> makes exactly one request, through the \<open>download\<close> primitive, to
  \<open>/files/upload\<close>, with the input record as metadata and the caller's \<open>Reader\<close> as the
  request body; it does not depend on the \<open>call\<close> primitive. What \<open>Upload\<close> returns is
  decided by what that application of \<open>download\<close> returns: its error, returned as it
  is with the world it left; or its body, decoded and closed; or a panic when it
  returns neither. \<open>Download\<close> makes exactly one request, through the \<open>download\<close>
  primitive, to \<open>/files/download\<close>, with the input record as metadata and no request
  body; it does not depend on \<open>call\<close> either; it returns the error of that application
  as it is, and otherwise the body of the response as it is, with the world it left.
\<close>

theorem Upload_and_Download_requests:
  "transport_events (new_events s (Upload c cl d (Some i) s)) =
     [DownloadEv ''/files/upload'' (UploadIn (Some i)) (Reader i)] \<and>
   Upload (c\<lparr>call := f\<rparr>) cl d (Some i) s = Upload c cl d (Some i) s \<and>
   transport_events (new_events s (Download c j s)) =
     [DownloadEv ''/files/download'' (DownloadIn j) None] \<and>
   Download (c\<lparr>call := f\<rparr>) j s = Download c j s \<and>
   (download c ''/files/download'' (DownloadIn j) None (world s) = ((body, None), w') \<longrightarrow>
      (\<exists>t. Download c j s = Return (Some \<lparr>Body = body\<rparr>) None j t)) \<and>
   (download c ''/files/upload'' (UploadIn (Some i)) (Reader i) (world s) =
      ((body, Some e), w') \<longrightarrow>
      Upload c cl d (Some i) s =
        Return None (Some e) (Some i)
          \<lparr>trace = trace s @ [DownloadEv ''/files/upload'' (UploadIn (Some i)) (Reader i)],
           world = w'\<rparr>) \<and>
   (download c ''/files/upload'' (UploadIn (Some i)) (Reader i) (world s) =
      ((Some b, None), w') \<longrightarrow>
      Upload c cl d (Some i) s =
        Return (fst (fst (d b w'))) (snd (fst (d b w'))) (Some i)
          \<lparr>trace = trace s @
             [DownloadEv ''/files/upload'' (UploadIn (Some i)) (Reader i), DecodeEv b,
              CloseEv b],
           world = snd (cl b (snd (d b w')))\<rparr>) \<and>
   (download c ''/files/upload'' (UploadIn (Some i)) (Reader i) (world s) =
      ((None, None), w') \<longrightarrow>
      Upload c cl d (Some i) s =
        Panic
          \<lparr>trace = trace s @ [DownloadEv ''/files/upload'' (UploadIn (Some i)) (Reader i)],
           world = w'\<rparr>) \<and>
   (download c ''/files/download'' (DownloadIn j) None (world s) = ((body, Some e), w') \<longrightarrow>
      Download c j s =
        Return None (Some e) j
          \<lparr>trace = trace s @ [DownloadEv ''/files/download'' (DownloadIn j) None],
           world = w'\<rparr>) \<and>
   (download c ''/files/download'' (DownloadIn j) None (world s) = ((body, None), w') \<longrightarrow>
      Download c j s =
        Return (Some \<lparr>Body = body\<rparr>) None j
          \<lparr>trace = trace s @ [DownloadEv ''/files/download'' (DownloadIn j) None],
           world = w'\<rparr>)"
proof -
  have events_Upload: "transport_events (new_events s (Upload c cl d (Some i) s)) =
      [DownloadEv ''/files/upload'' (UploadIn (Some i)) (Reader i)]"
    by (simp add: Upload_def c_download_def json_Decode_def body_Close_def new_events_def
        transport_events_def split: prod.splits option.splits)
  have no_call_Upload: "Upload (c\<lparr>call := f\<rparr>) cl d (Some i) s = Upload c cl d (Some i) s"
    by (simp add: Upload_def c_download_def)
  have events_Download: "transport_events (new_events s (Download c j s)) =
      [DownloadEv ''/files/download'' (DownloadIn j) None]"
    by (simp add: Download_def c_download_def new_events_def transport_events_def
        split: prod.splits option.splits)
  have no_call_Download: "Download (c\<lparr>call := f\<rparr>) j s = Download c j s"
    by (simp add: Download_def c_download_def)
  have body_Download: "\<exists>t. Download c j s = Return (Some \<lparr>Body = body\<rparr>) None j t"
    if "download c ''/files/download'' (DownloadIn j) None (world s) = ((body, None), w')"
    using that by (simp add: Download_transport_ok)
  note paths = Upload_transport_error [of c i s body e w' cl d]
    Upload_transport_ok [of c i s b w' cl d] Upload_nil_body_panics [of c i s w' cl d]
    Download_transport_error [of c j s body e w'] Download_transport_ok [of c j s body w']
  from events_Upload no_call_Upload events_Download no_call_Download body_Download paths
  show ?thesis
    by (intro conjI impI) assumption+
qed

text \<open>
  The three paths of \<open>Upload\<close> and the two of \<open>Download\<close>, on a transport that answers,
  one that fails and one that returns nothing.
\<close>

theorem Upload_and_Download_requests_witness:
  "transport_events (new_events s0
       (Upload serving_Client closes (decodes \<lparr>UploadOutput.Metadata = a_Metadata\<rparr>)
          (Some an_UploadInput) s0)) =
     [DownloadEv ''/files/upload'' (UploadIn (Some an_UploadInput)) (Some 3)] \<and>
   transport_events (new_events s0 (Download serving_Client (Some a_DownloadInput) s0)) =
     [DownloadEv ''/files/download'' (DownloadIn (Some a_DownloadInput)) None] \<and>
   download serving_Client ''/files/download'' (DownloadIn (Some a_DownloadInput)) None
       (world s0) =
     ((Some 7, None), 1) \<and>
   (\<exists>t. Download serving_Client (Some a_DownloadInput) s0 =
      Return (Some \<lparr>Body = Some 7\<rparr>) None (Some a_DownloadInput) t) \<and>
   download serving_Client ''/files/upload'' (UploadIn (Some an_UploadInput)) (Some 3)
       (world s0) =
     ((Some 7, None), 1) \<and>
   Upload serving_Client closes (decodes \<lparr>UploadOutput.Metadata = a_Metadata\<rparr>)
       (Some an_UploadInput) s0 =
     Return (Some \<lparr>UploadOutput.Metadata = a_Metadata\<rparr>) None (Some an_UploadInput)
       \<lparr>trace = [DownloadEv ''/files/upload'' (UploadIn (Some an_UploadInput)) (Some 3),
                 DecodeEv 7, CloseEv 7],
        world = 111\<rparr> \<and>
   Download serving_Client (Some a_DownloadInput) s0 =
     Return (Some \<lparr>Body = Some 7\<rparr>) None (Some a_DownloadInput)
       \<lparr>trace = [DownloadEv ''/files/download'' (DownloadIn (Some a_DownloadInput)) None],
        world = 1\<rparr> \<and>
   download failing_Client ''/files/upload'' (UploadIn (Some an_UploadInput)) (Some 3)
       (world s0) =
     ((None, Some timeout), 1) \<and>
   Upload failing_Client closes (decodes \<lparr>UploadOutput.Metadata = a_Metadata\<rparr>)
       (Some an_UploadInput) s0 =
     Return None (Some timeout) (Some an_UploadInput)
       \<lparr>trace = [DownloadEv ''/files/upload'' (UploadIn (Some an_UploadInput)) (Some 3)],
        world = 1\<rparr> \<and>
   Download failing_Client (Some a_DownloadInput) s0 =
     Return None (Some timeout) (Some a_DownloadInput)
       \<lparr>trace = [DownloadEv ''/files/download'' (DownloadIn (Some a_DownloadInput)) None],
        world = 1\<rparr> \<and>
   download silent_Client ''/files/upload'' (UploadIn (Some an_UploadInput)) (Some 3)
       (world s0) =
     ((None, None), 1) \<and>
   Upload silent_Client closes (decodes \<lparr>UploadOutput.Metadata = a_Metadata\<rparr>)
       (Some an_UploadInput) s0 =
     Panic
       \<lparr>trace = [DownloadEv ''/files/upload'' (UploadIn (Some an_UploadInput)) (Some 3)],
        world = 1\<rparr>"
  using
    Upload_and_Download_requests [where c = serving_Client and cl = closes and s = s0 and
      d = "decodes \<lparr>UploadOutput.Metadata = a_Metadata\<rparr>" and i = an_UploadInput and
      j = "Some a_DownloadInput" and body = "Some 7" and b = 7 and e = timeout and w' = 1 and
      f = "call serving_Client"]
    Upload_and_Download_requests [where c = failing_Client and cl = closes and s = s0 and
      d = "decodes \<lparr>UploadOutput.Metadata = a_Metadata\<rparr>" and i = an_UploadInput and
      j = "Some a_DownloadInput" and body = None and b = 7 and e = timeout and w' = 1 and
      f = "call failing_Client"]
    Upload_and_Download_requests [where c = silent_Client and cl = closes and s = s0 and
      d = "decodes \<lparr>UploadOutput.Metadata = a_Metadata\<rparr>" and i = an_UploadInput and
      j = "Some a_DownloadInput" and body = None and b = 7 and e = timeout and w' = 1 and
      f = "call silent_Client"]
  by (simp add: serving_Client_def failing_Client_def silent_Client_def s0_def
      an_UploadInput_def decodes_def closes_def new_events_def transport_events_def)

text \<open>
  Claim C9. For every operation, when the transport primitive returns an error the
  operation returns a nil output beside it, whatever else the primitive returned. For
  \<open>Download\<close> no \<open>DownloadOutput\<close> is built, so no stream reaches the caller.
\<close>

theorem no_output_on_transport_error:
  "(snd (fst (call c ''/files/get_metadata'' (GetMetadataIn i_gm) (world s))) = Some e \<longrightarrow>
      (\<exists>t. GetMetadata c cl d_gm i_gm s = Return None (Some e) i_gm t)) \<and>
   (snd (fst (call c ''/files/create_folder'' (CreateFolderIn i_cf) (world s))) = Some e \<longrightarrow>
      (\<exists>t. CreateFolder c cl d_cf i_cf s = Return None (Some e) i_cf t)) \<and>
   (snd (fst (call c ''/files/delete'' (DeleteIn i_del) (world s))) = Some e \<longrightarrow>
      (\<exists>t. Delete c cl d_del i_del s = Return None (Some e) i_del t)) \<and>
   (snd (fst (call c ''/files/copy'' (CopyIn i_cp) (world s))) = Some e \<longrightarrow>
      (\<exists>t. Copy c cl d_cp i_cp s = Return None (Some e) i_cp t)) \<and>
   (snd (fst (call c ''/files/move'' (MoveIn i_mv) (world s))) = Some e \<longrightarrow>
      (\<exists>t. Move c cl d_mv i_mv s = Return None (Some e) i_mv t)) \<and>
   (snd (fst (call c ''/files/restore'' (RestoreIn i_rs) (world s))) = Some e \<longrightarrow>
      (\<exists>t. Restore c cl d_rs i_rs s = Return None (Some e) i_rs t)) \<and>
   (snd (fst (call c ''/files/list_folder'' (ListFolderIn i_lf) (world s))) = Some e \<longrightarrow>
      (\<exists>t. ListFolder c cl d_lf i_lf s = Return None (Some e) i_lf t)) \<and>
   (snd (fst (call c ''/files/search'' (SearchIn (Some (fill_Mode i_se))) (world s))) = Some e \<longrightarrow>
      (\<exists>t. Search c cl d_se (Some i_se) s = Return None (Some e) (Some (fill_Mode i_se)) t)) \<and>
   (snd (fst (download c ''/files/upload'' (UploadIn (Some i_up)) (Reader i_up) (world s))) =
      Some e \<longrightarrow>
      (\<exists>t. Upload c cl d_up (Some i_up) s = Return None (Some e) (Some i_up) t)) \<and>
   (snd (fst (download c ''/files/download'' (DownloadIn i_dl) None (world s))) = Some e \<longrightarrow>
      (\<exists>t. Download c i_dl s = Return None (Some e) i_dl t))"
proof -
  have from_call: "\<exists>body w'. call c path inp (world s) = ((body, Some e), w')"
    if "snd (fst (call c path inp (world s))) = Some e" for path inp
    using that by (cases "call c path inp (world s)") auto
  have from_download: "\<exists>body w'. download c path inp r (world s) = ((body, Some e), w')"
    if "snd (fst (download c path inp r (world s))) = Some e" for path inp r
    using that by (cases "download c path inp r (world s)") auto
  show ?thesis
    by (intro conjI impI)
      (auto dest!: from_call from_download
        simp: GetMetadata_transport_error CreateFolder_transport_error Delete_transport_error
          Copy_transport_error Move_transport_error Restore_transport_error
          ListFolder_transport_error Search_transport_error Upload_transport_error
          Download_transport_error)
qed

theorem no_output_on_transport_error_witness:
  "snd (fst (download leaking_Client ''/files/download'' (DownloadIn (Some a_DownloadInput)) None
       (world s0))) =
     Some timeout \<and>
   (\<exists>t. GetMetadata leaking_Client closes decode_fails_nil (Some a_GetMetadataInput) s0 =
      Return None (Some timeout) (Some a_GetMetadataInput) t) \<and>
   (\<exists>t. CreateFolder leaking_Client closes decode_fails_nil (Some a_CreateFolderInput) s0 =
      Return None (Some timeout) (Some a_CreateFolderInput) t) \<and>
   (\<exists>t. Delete leaking_Client closes decode_fails_nil (Some a_DeleteInput) s0 =
      Return None (Some timeout) (Some a_DeleteInput) t) \<and>
   (\<exists>t. Copy leaking_Client closes decode_fails_nil (Some a_CopyInput) s0 =
      Return None (Some timeout) (Some a_CopyInput) t) \<and>
   (\<exists>t. Move leaking_Client closes decode_fails_nil (Some a_MoveInput) s0 =
      Return None (Some timeout) (Some a_MoveInput) t) \<and>
   (\<exists>t. Restore leaking_Client closes decode_fails_nil (Some a_RestoreInput) s0 =
      Return None (Some timeout) (Some a_RestoreInput) t) \<and>
   (\<exists>t. ListFolder leaking_Client closes decode_fails_nil (Some a_ListFolderInput) s0 =
      Return None (Some timeout) (Some a_ListFolderInput) t) \<and>
   (\<exists>t. Search leaking_Client closes decode_fails_nil (Some a_SearchInput) s0 =
      Return None (Some timeout) (Some (fill_Mode a_SearchInput)) t) \<and>
   (\<exists>t. Upload leaking_Client closes decode_fails_nil (Some an_UploadInput) s0 =
      Return None (Some timeout) (Some an_UploadInput) t) \<and>
   (\<exists>t. Download leaking_Client (Some a_DownloadInput) s0 =
      Return None (Some timeout) (Some a_DownloadInput) t)"
  using no_output_on_transport_error [where c = leaking_Client and cl = closes and s = s0 and
      e = timeout and
      i_gm = "Some a_GetMetadataInput" and
      i_cf = "Some a_CreateFolderInput" and
      i_del = "Some a_DeleteInput" and
      i_cp = "Some a_CopyInput" and
      i_mv = "Some a_MoveInput" and
      i_rs = "Some a_RestoreInput" and
      i_lf = "Some a_ListFolderInput" and
      i_se = a_SearchInput and i_up = an_UploadInput and i_dl = "Some a_DownloadInput" and
      d_gm = decode_fails_nil and
      d_cf = decode_fails_nil and
      d_del = decode_fails_nil and
      d_cp = decode_fails_nil and
      d_mv = decode_fails_nil and
      d_rs = decode_fails_nil and
      d_lf = decode_fails_nil and
      d_se = decode_fails_nil and d_up = decode_fails_nil]
  by (simp add: leaking_Client_def s0_def)

text \<open>
  The keys of the structs, read off their tags. Every field that is mapped to JSON has a
  tag naming a wire key, with one exception, found by going through all of them:
  \<open>Entries\<close> of \<open>ListFolderOutput\<close>.
\<close>

lemmas tag_defs = field_key_def tag_name_def isValidTag_def isLetterOrDigit_def lower_snake_def

lemma Metadata_keys:
  "decl_keys Metadata_decl =
     [Some ''.tag'', Some ''name'', Some ''path_lower'', Some ''client_modified'',
      Some ''server_modified'', Some ''rev'', Some ''size'', Some ''id'']"
  by (simp add: decl_keys_def Metadata_decl_def tag_defs)

lemma SearchMatch_keys:
  "decl_keys SearchMatch_decl = [Some ''match_type'', Some ''metadata''] \<and>
   decl_keys MatchType_decl = [Some ''.tag'']"
  by (simp add: decl_keys_def SearchMatch_decl_def MatchType_decl_def tag_defs)

lemma UploadInput_decl_keys:
  "decl_keys UploadInput_decl =
     [Some ''path'', Some ''mode'', Some ''autorename'', Some ''mute'', Some ''client_modified'',
      None]"
  by (simp add: decl_keys_def UploadInput_decl_def tag_defs)

lemma stream_fields_have_no_wire_key:
  "field_key ''Reader'' ''-'' = None \<and> decl_keys DownloadOutput_decl = [Some ''Body'']"
  by (simp add: decl_keys_def DownloadOutput_decl_def tag_defs)

lemma off_contract_Metadata: "off_contract (n, Metadata_decl) = []"
  by (simp add: off_contract_def Metadata_decl_def tag_defs)

lemma off_contract_fields:
  "concat (map off_contract json_structs) = [(''ListFolderOutput'', ''Entries'', ''Entries'')]"
  by (simp add: json_structs_def off_contract_Metadata)
    (simp add: off_contract_def GetMetadataInput_decl_def CreateFolderInput_decl_def
      CreateFolderOutput_decl_def DeleteInput_decl_def CopyInput_decl_def MoveInput_decl_def
      RestoreInput_decl_def ListFolderInput_decl_def ListFolderOutput_decl_def
      MatchType_decl_def SearchMatch_decl_def SearchInput_decl_def SearchOutput_decl_def
      UploadInput_decl_def DownloadInput_decl_def tag_defs)

text \<open>
  Claim C8. Every field of the JSON records should carry the wire key of the remote API,
  \<open>ListFolderOutput\<close>'s entries field included. The source declares \<open>Entries\<close> with no
  \<open>json\<close> tag, next to \<open>Cursor\<close> and \<open>HasMore\<close> which have theirs, so its key is the Go
  name \<open>Entries\<close>, which is not the wire key \<open>entries\<close>.
\<close>

theorem ListFolderOutput_Entries_key:
  "decl_keys ListFolderOutput_decl = [Some ''cursor'', Some ''has_more'', Some ''Entries''] \<and>
   \<not> lower_snake ''Entries'' \<and> ''Entries'' \<noteq> ''entries''"
  by (simp add: decl_keys_def ListFolderOutput_decl_def tag_defs)

text \<open>
  The keys of the serialised inputs of \<open>Upload\<close> and \<open>Search\<close>. The option \<open>omitempty\<close>
  leaves \<open>start\<close> and \<open>max_results\<close> out when they are zero; it has no effect on
  \<open>client_modified\<close>, whose value is a struct. \<open>Reader\<close> is never serialised.
\<close>

lemmas marshal_defs = field_key_def tag_name_def isValidTag_def isLetterOrDigit_def
  omitEmpty_def tag_opts_def opts_Contains_def

lemma UploadInput_fields_decl:
  "map (\<lambda>f. (go_name f, json_tag f)) (UploadInput_fields i) = UploadInput_decl"
  by (simp add: UploadInput_fields_def UploadInput_decl_def)

lemma SearchInput_fields_decl:
  "map (\<lambda>f. (go_name f, json_tag f)) (SearchInput_fields i) = SearchInput_decl"
  by (simp add: SearchInput_fields_def SearchInput_decl_def)

lemma UploadInput_marshal_keys:
  "marshal_keys (UploadInput_fields i) =
     [''path'', ''mode'', ''autorename'', ''mute'', ''client_modified'']"
  by (simp add: UploadInput_fields_def marshal_defs)

lemma SearchInput_marshal_keys:
  "marshal_keys (SearchInput_fields i) =
     [''path'', ''query''] @ (if SearchInput.Start i = 0 then [] else [''start'']) @
     (if MaxResults i = 0 then [] else [''max_results'']) @ [''mode'']"
  by (simp add: SearchInput_fields_def marshal_defs)

text \<open>
  Claim C10. The serialised metadata of an \<open>UploadInput\<close> should hold the keys \<open>path\<close>,
  \<open>mode\<close>, \<open>autorename\<close>, \<open>mute\<close>, and \<open>client_modified\<close> only when that time is not
  zero. For an input whose \<open>ClientModified\<close> is the zero time the key \<open>client_modified\<close>
  is written all the same; \<open>Reader\<close> is left out, as the claim says.
\<close>

theorem UploadInput_zero_time_is_serialised:
  "UploadInput.ClientModified an_UploadInput = zero_Time \<and>
   marshal_keys (UploadInput_fields an_UploadInput) =
     [''path'', ''mode'', ''autorename'', ''mute'', ''client_modified'']"
  by (simp add: UploadInput_fields_def an_UploadInput_def marshal_defs)

end
